theory Spec2Isabelle
  imports Main "HOL-Library.Monad_Syntax"
begin

section \<open>Python text and list primitives\<close>

text \<open>
  Python's \<open>str\<close> is a sequence of Unicode code points, and \<open>len\<close> counts them. It is
  modelled as the list of its code points, each a natural number; \<open>str\<close> turns an
  ASCII literal into such a list. The code points written as numbers below are 32 (the
  space), 35 (\<open>#\<close>) and 45 (\<open>-\<close>). White space is what \<open>str.isspace\<close> accepts, in
  all of Unicode, and each emoji of the caption templates is one code point. Case
  mapping is Python's on the ASCII letters; every other code point is left as it is,
  where Python's tables map further letters: the texts of the program are ASCII but
  for the emoji, and the theorems use of the case mapping only that it turns no other
  character into a space. Python's \<open>int\<close> is \<open>int\<close>.
\<close>

type_synonym pystr = "nat list"

definition str :: "string \<Rightarrow> pystr" where
  \<comment> \<open>an ASCII literal of the program as a Python string\<close>
  "str s = map of_char s"

definition py_slice_to :: "'a list \<Rightarrow> int \<Rightarrow> 'a list" where
  \<comment> \<open>\<open>xs[:n]\<close>: a negative \<open>n\<close> counts from the end of the list.\<close>
  "py_slice_to xs n =
     (if 0 \<le> n then take (nat n) xs else take (length xs - nat (- n)) xs)"

definition py_lower_char :: "nat \<Rightarrow> nat" where
  \<comment> \<open>\<open>A\<close> to \<open>Z\<close> are 65 to 90, \<open>a\<close> to \<open>z\<close> are 97 to 122\<close>
  "py_lower_char c = (if 65 \<le> c \<and> c \<le> 90 then c + 32 else c)"

definition py_upper_char :: "nat \<Rightarrow> nat" where
  "py_upper_char c = (if 97 \<le> c \<and> c \<le> 122 then c - 32 else c)"

definition py_lower :: "pystr \<Rightarrow> pystr" where
  \<comment> \<open>\<open>s.lower()\<close>\<close>
  "py_lower s = map py_lower_char s"

fun py_capitalize :: "pystr \<Rightarrow> pystr" where
  \<comment> \<open>\<open>s.capitalize()\<close>: first character upper case, the rest lower case.\<close>
  "py_capitalize [] = []"
| "py_capitalize (c # cs) = py_upper_char c # py_lower cs"

definition py_isspace :: "nat \<Rightarrow> bool" where
  \<comment> \<open>\<open>c.isspace()\<close>: the 29 white-space code points of Unicode\<close>
  "py_isspace c =
     (c \<in> set [0x09, 0x0A, 0x0B, 0x0C, 0x0D, 0x1C, 0x1D, 0x1E, 0x1F, 0x20, 0x85, 0xA0,
                0x1680, 0x2000, 0x2001, 0x2002, 0x2003, 0x2004, 0x2005, 0x2006, 0x2007,
                0x2008, 0x2009, 0x200A, 0x2028, 0x2029, 0x202F, 0x205F, 0x3000])"

fun split_ws :: "pystr \<Rightarrow> pystr \<Rightarrow> pystr list" where
  \<comment> \<open>the scan behind \<open>s.split()\<close>: the word read so far, then the rest of the text\<close>
  "split_ws w [] = (if w = [] then [] else [w])"
| "split_ws w (c # cs) =
     (if py_isspace c then (if w = [] then split_ws [] cs else w # split_ws [] cs)
      else split_ws (w @ [c]) cs)"

definition py_split :: "pystr \<Rightarrow> pystr list" where
  \<comment> \<open>\<open>s.split()\<close>: the maximal runs of characters that are not white space\<close>
  "py_split s = split_ws [] s"

definition py_strip :: "pystr \<Rightarrow> pystr" where
  \<comment> \<open>\<open>s.strip()\<close>\<close>
  "py_strip s = rev (dropWhile py_isspace (rev (dropWhile py_isspace s)))"

definition py_remove :: "nat \<Rightarrow> pystr \<Rightarrow> pystr" where
  \<comment> \<open>\<open>s.replace(c, "")\<close> for a one-character \<open>c\<close>\<close>
  "py_remove c s = filter (\<lambda>x. x \<noteq> c) s"

definition py_replace_char :: "nat \<Rightarrow> nat \<Rightarrow> pystr \<Rightarrow> pystr" where
  \<comment> \<open>\<open>s.replace(a, b)\<close> for one-character \<open>a\<close> and \<open>b\<close>\<close>
  "py_replace_char a b s = map (\<lambda>x. if x = a then b else x) s"

definition py_startswith :: "pystr \<Rightarrow> pystr \<Rightarrow> bool" where
  \<comment> \<open>\<open>s.startswith(p)\<close>\<close>
  "py_startswith s p = (take (length p) s = p)"

fun py_in :: "pystr \<Rightarrow> pystr \<Rightarrow> bool" where
  \<comment> \<open>\<open>needle in haystack\<close> on strings: the needle occurs as a contiguous block\<close>
  "py_in needle [] = (needle = [])"
| "py_in needle (h # hs) = (py_startswith (h # hs) needle \<or> py_in needle hs)"

fun py_join :: "pystr \<Rightarrow> pystr list \<Rightarrow> pystr" where
  \<comment> \<open>\<open>sep.join(xs)\<close>\<close>
  "py_join sep [] = []"
| "py_join sep [x] = x"
| "py_join sep (x # y # ys) = x @ sep @ py_join sep (y # ys)"

fun split_on :: "nat \<Rightarrow> pystr \<Rightarrow> pystr \<Rightarrow> pystr list" where
  \<comment> \<open>the scan behind \<open>s.split(c)\<close>: the piece read so far, then the rest of the text\<close>
  "split_on c w [] = [w]"
| "split_on c w (x # xs) =
     (if x = c then w # split_on c [] xs else split_on c (w @ [x]) xs)"

definition py_split_on :: "nat \<Rightarrow> pystr \<Rightarrow> pystr list" where
  \<comment> \<open>\<open>s.split(c)\<close> for a one-character separator: every occurrence separates\<close>
  "py_split_on c s = split_on c [] s"

definition fromkeys :: "'a list \<Rightarrow> 'a list" where
  \<comment> \<open>\<open>list(dict.fromkeys(xs))\<close>: the keys in the order of their first insertion\<close>
  "fromkeys xs = foldl (\<lambda>keys k. if k \<in> set keys then keys else keys @ [k]) [] xs"

section \<open>Topic generation (content\_creator/nodes.py)\<close>

definition fitness_topics :: "pystr list" where
  "fitness_topics =
    map str
    [''Morning Workout Routines'', ''Healthy Breakfast Ideas'', ''Office Stretches'',
     ''Quick Lunch Workouts'', ''Evening Relaxation Techniques'', ''Weekend Fitness Challenges'',
     ''Desk Yoga Poses'', ''Healthy Snack Ideas'', ''Posture Correction Exercises'',
     ''Lunch Break Walks'', ''Stair Workout Ideas'', ''Healthy Meal Prep Tips'',
     ''Standing Desk Exercises'', ''Mindfulness Practices'', ''Hydration Tips'',
     ''Quick Stretches for Back Pain'', ''Healthy Takeout Options'', ''Sleep Improvement Tips'',
     ''Stress Relief Exercises'', ''Healthy Dessert Recipes'', ''Commute Workout Ideas'',
     ''Healthy Grocery List'', ''Quick Workout for Busy Days'', ''Healthy Meal Swaps'',
     ''Deskercise Routines'', ''Healthy Office Snacks'', ''Lunch Break Meditation'',
     ''Healthy Drink Recipes'', ''Weekend Fitness Goals'', ''Recovery Techniques'']"

definition mental_topics :: "pystr list" where
  "mental_topics =
    map str
    [''Daily Mindfulness Practices'', ''Stress Management Techniques'', ''Anxiety Coping Strategies'',
     ''Self-Care Sunday Ideas'', ''Meditation for Beginners'', ''Journaling Prompts'',
     ''Breathing Exercises'', ''Digital Detox Tips'', ''Positive Affirmations'',
     ''Sleep Hygiene Habits'', ''Gratitude Practice'', ''Boundary Setting'',
     ''Emotional Regulation'', ''Mindful Eating'', ''Nature Therapy Benefits'',
     ''Social Connection Tips'', ''Creative Expression'', ''Time Management'',
     ''Perfectionism Recovery'', ''Self-Compassion Exercises'', ''Mindful Communication'',
     ''Workplace Wellness'', ''Seasonal Affective Disorder'', ''Therapy Benefits'',
     ''Mental Health Myths'', ''Crisis Resources'', ''Support System Building'',
     ''Mindful Movement'', ''Cognitive Behavioral Techniques'', ''Mental Health First Aid'']"

definition business_topics :: "pystr list" where
  "business_topics =
    map str
    [''Morning Productivity Routines'', ''Time Management Hacks'', ''Networking Strategies'',
     ''Leadership Development'', ''Team Building Activities'', ''Goal Setting Frameworks'',
     ''Communication Skills'', ''Presentation Tips'', ''Email Etiquette'',
     ''Remote Work Best Practices'', ''Meeting Efficiency'', ''Delegation Techniques'',
     ''Conflict Resolution'', ''Innovation Strategies'', ''Customer Service Excellence'',
     ''Brand Building Tips'', ''Social Media Marketing'', ''Content Creation Ideas'',
     ''Financial Planning'', ''Investment Basics'', ''Entrepreneurship Mindset'',
     ''Work-Life Balance'', ''Professional Development'', ''Industry Trends'',
     ''Negotiation Skills'', ''Project Management'', ''Digital Marketing'',
     ''Sales Techniques'', ''Client Relationship Management'', ''Strategic Planning'']"

definition technology_topics :: "pystr list" where
  "technology_topics =
    map str
    [''AI Tools for Productivity'', ''Cybersecurity Best Practices'', ''Cloud Computing Benefits'',
     ''Mobile App Development'', ''Web Design Trends'', ''Data Privacy Tips'',
     ''Social Media Security'', ''Digital Minimalism'', ''Tech for Seniors'',
     ''Automation Tools'', ''Programming Languages'', ''Tech Career Paths'',
     ''Gadget Reviews'', ''Software Recommendations'', ''Tech News Updates'',
     ''Digital Wellness'', ''Online Learning Platforms'', ''Tech Troubleshooting'',
     ''Future Tech Predictions'', ''Startup Tech Stack'', ''Open Source Tools'',
     ''Tech Accessibility'', ''Green Technology'', ''Blockchain Basics'',
     ''IoT Applications'', ''Virtual Reality Uses'', ''Machine Learning Intro'',
     ''Tech Ethics'', ''Digital Transformation'', ''Tech Community Building'']"

definition themes :: "(pystr \<times> pystr list) list" where
  \<comment> \<open>the dictionary \<open>themes\<close>, its keys in insertion order\<close>
  "themes =
     [(str ''Fitness'', fitness_topics), (str ''Mental'', mental_topics),
      (str ''Business'', business_topics), (str ''Technology'', technology_topics)]"

definition base_topics :: "pystr list" where
  "base_topics =
    map str
    [''Getting Started Guide'', ''Common Mistakes to Avoid'', ''Expert Tips'',
     ''Best Practices'', ''Tools and Resources'', ''Success Stories'',
     ''Troubleshooting Guide'', ''Advanced Techniques'', ''Industry Insights'',
     ''Trends and Updates'', ''Community Spotlight'', ''Q&A Session'',
     ''Behind the Scenes'', ''Case Study'', ''Tutorial Tuesday'',
     ''Myth Busting'', ''Quick Tips'', ''Deep Dive Analysis'',
     ''Beginner's Guide'', ''Pro Tips'', ''Weekly Roundup'',
     ''How-To Guide'', ''Comparison Review'', ''Future Predictions'',
     ''Personal Experience'', ''Lessons Learned'', ''Resource Recommendations'',
     ''Community Discussion'', ''Expert Interview'', ''Reflection Friday'']"

fun find_theme_key :: "pystr list \<Rightarrow> pystr \<Rightarrow> pystr option" where
  \<comment> \<open>\<open>for key in themes.keys(): if key.lower() in theme_lower: theme_key = key; break\<close>\<close>
  "find_theme_key [] theme_lower = None"
| "find_theme_key (key # keys) theme_lower =
     (if py_in (py_lower key) theme_lower then Some key
      else find_theme_key keys theme_lower)"

partial_function (option) extend_topics ::
  "pystr list \<Rightarrow> int \<Rightarrow> pystr list \<Rightarrow> pystr list option" where
  \<comment> \<open>\<open>while len(topics) < num_days: topics.extend(pool[:num_days - len(topics)])\<close>;
      \<open>None\<close> is a loop that does not return\<close>
  "extend_topics pool num_days topics =
     (if int (length topics) < num_days
      then extend_topics pool num_days
             (topics @ py_slice_to pool (num_days - int (length topics)))
      else Some topics)"

declare extend_topics.simps [code]

definition generic_topics :: "pystr \<Rightarrow> int \<Rightarrow> pystr list" where
  \<comment> \<open>\<open>for i in range(num_days): topics.append(f"{theme}: {base_topics[i % len(base_topics)]}")\<close>\<close>
  "generic_topics theme num_days =
     map (\<lambda>i. theme @ str '': '' @ base_topics ! (i mod length base_topics)) [0..<nat num_days]"

definition matched_theme_key :: "pystr \<Rightarrow> pystr option" where
  \<comment> \<open>\<open>theme_key\<close> once the search over \<open>themes.keys()\<close> is over, for \<open>theme_lower = theme.lower()\<close>\<close>
  "matched_theme_key theme = find_theme_key (map fst themes) (py_lower theme)"

definition generate_topic_ideas :: "pystr \<Rightarrow> int \<Rightarrow> pystr list option" where
  \<comment> \<open>the guard \<open>if theme_key and theme_key in themes\<close> is the three tests before the loop\<close>
  "generate_topic_ideas theme num_days =
     (case matched_theme_key theme of
        None \<Rightarrow> Some (generic_topics theme num_days)
      | Some theme_key \<Rightarrow>
          (case map_of themes theme_key of
             None \<Rightarrow> Some (generic_topics theme num_days)
           | Some pool \<Rightarrow>
               (if theme_key = [] then Some (generic_topics theme num_days)
                else do {
                  extended \<leftarrow> extend_topics pool num_days (py_slice_to pool num_days);
                  Some (py_slice_to extended num_days)
                })))"

section \<open>The random source\<close>

text \<open>
  \<open>random.choice\<close> and \<open>random.sample\<close> draw positions of the list they are given. The
  positions drawn for one content entry are an input of the model: one position for the
  caption template, two distinct positions for each of the two samples of size 2.
\<close>

record draws =
  caption_pick :: nat
  theme_pick :: "nat \<times> nat"
  general_pick :: "nat \<times> nat"

definition valid_sample :: "nat \<Rightarrow> nat \<times> nat \<Rightarrow> bool" where
  \<comment> \<open>two distinct positions of a list of \<open>n\<close> elements\<close>
  "valid_sample n s = (fst s < n \<and> snd s < n \<and> fst s \<noteq> snd s)"

definition random_choice :: "'a list \<Rightarrow> nat \<Rightarrow> 'a" where
  \<comment> \<open>\<open>random.choice(xs)\<close>, the position drawn being \<open>r < len(xs)\<close>\<close>
  "random_choice xs r = xs ! r"

definition random_sample2 :: "'a list \<Rightarrow> nat \<times> nat \<Rightarrow> 'a list" where
  \<comment> \<open>\<open>random.sample(xs, 2)\<close>, the positions drawn being a valid sample of \<open>len(xs)\<close>\<close>
  "random_sample2 xs s = [xs ! fst s, xs ! snd s]"

section \<open>Captions and hashtags (content\_creator/nodes.py)\<close>

definition emoji_bulb :: pystr where "emoji_bulb = [0x1F4A1]"
definition emoji_rocket :: pystr where "emoji_rocket = [0x1F680]"
definition emoji_star2 :: pystr where "emoji_star2 = [0x1F31F]"
definition emoji_sparkles :: pystr where "emoji_sparkles = [0x2728]"
definition emoji_fire :: pystr where "emoji_fire = [0x1F525]"
definition emoji_muscle :: pystr where "emoji_muscle = [0x1F4AA]"
definition emoji_pray :: pystr where "emoji_pray = [0x1F64F]"
definition emoji_dart :: pystr where "emoji_dart = [0x1F3AF]"
definition emoji_seedling :: pystr where "emoji_seedling = [0x1F331]"
definition emoji_green_heart :: pystr where "emoji_green_heart = [0x1F49A]"
definition emoji_zap :: pystr where "emoji_zap = [0x26A1]"
definition emoji_tada :: pystr where "emoji_tada = [0x1F389]"
definition emoji_chart :: pystr where "emoji_chart = [0x1F4C8]"
definition emoji_brain :: pystr where "emoji_brain = [0x1F9E0]"
definition emoji_rainbow :: pystr where "emoji_rainbow = [0x1F308]"
definition emoji_blush :: pystr where "emoji_blush = [0x1F60A]"
definition emoji_star :: pystr where "emoji_star = [0x2B50]"

definition templates :: "pystr \<Rightarrow> pystr \<Rightarrow> pystr list" where
  \<comment> \<open>the list \<open>templates\<close> of \<open>generate_caption\<close>, with \<open>theme_lower = theme.lower()\<close>\<close>
  "templates topic theme =
     (let theme_lower = py_lower theme in
      [emoji_bulb @ str '' '' @ topic @ str '': Your '' @ theme_lower
         @ str '' game-changer! Ready to level up? Let's dive in! '' @ emoji_rocket,
       emoji_star2 @ str '' Today's spotlight: '' @ topic @ str ''. Small steps, big results in your ''
         @ theme_lower @ str '' journey! '' @ emoji_sparkles,
       emoji_fire @ str '' '' @ topic @ str '' - the secret sauce to crushing your '' @ theme_lower
         @ str '' goals! Who's ready to try this? '' @ emoji_muscle,
       emoji_sparkles @ str '' Transform your routine with '' @ topic
         @ str ''! Your future self will thank you '' @ emoji_pray @ str '' #''
         @ py_remove 32 theme,
       emoji_dart @ str '' Focus Friday: '' @ topic @ str ''. Because consistency in '' @ theme_lower
         @ str '' creates magic! '' @ emoji_sparkles,
       emoji_muscle @ str '' '' @ topic @ str '' isn't just a tip - it's your pathway to ''
         @ theme_lower @ str '' success! Let's go! '' @ emoji_rocket,
       emoji_seedling @ str '' Growing stronger every day with '' @ topic @ str ''. Your ''
         @ theme_lower @ str '' journey matters! '' @ emoji_green_heart,
       emoji_zap @ str '' Power up your '' @ theme_lower @ str '' with '' @ topic
         @ str ''! Simple changes, powerful results '' @ emoji_fire,
       emoji_tada @ str '' Celebrating progress with '' @ topic @ str ''! Every step counts in your ''
         @ theme_lower @ str '' story '' @ emoji_chart,
       emoji_brain @ str '' Smart strategy: '' @ topic @ str ''. Work smarter, not harder in your ''
         @ theme_lower @ str '' journey! '' @ emoji_bulb,
       emoji_rainbow @ str '' Brighten your day with '' @ topic @ str ''! Making '' @ theme_lower
         @ str '' fun and sustainable '' @ emoji_blush,
       emoji_star @ str '' Pro tip: '' @ topic @ str '' is your secret weapon for '' @ theme_lower
         @ str '' success! Ready to shine? '' @ emoji_sparkles])"

definition generate_caption :: "pystr \<Rightarrow> pystr \<Rightarrow> nat \<Rightarrow> pystr" where
  "generate_caption topic theme pick = random_choice (templates topic theme) pick"

definition theme_hashtags :: "(pystr \<times> pystr list) list" where
  "theme_hashtags =
     [(str ''fitness'',
       map str [''FitnessMotivation'', ''HealthyLifestyle'', ''WorkoutTips'', ''FitLife'',
                ''HealthyHabits'', ''WellnessJourney'']),
      (str ''mental'',
       map str [''MentalHealthMatters'', ''SelfCare'', ''Mindfulness'', ''WellnessWednesday'',
                ''MentalWellness'', ''SelfLove'']),
      (str ''business'',
       map str [''BusinessTips'', ''Entrepreneurship'', ''Leadership'', ''ProductivityHacks'',
                ''BusinessGrowth'', ''Success'']),
      (str ''technology'',
       map str [''TechTips'', ''Innovation'', ''DigitalLife'', ''TechTrends'',
                ''FutureTech'', ''TechCommunity''])]"

definition general_hashtags :: "pystr list" where
  "general_hashtags =
     map str
     [''Motivation'', ''Tips'', ''Growth'', ''Success'', ''Community'', ''Inspiration'',
      ''Goals'', ''Progress'']"

fun theme_specific_tags ::
  "(pystr \<times> pystr list) list \<Rightarrow> pystr \<Rightarrow> nat \<times> nat \<Rightarrow> pystr list" where
  \<comment> \<open>\<open>for theme_key, theme_tags in theme_hashtags.items()\<close>, left at the first match;
      every pool has six tags, so \<open>min(2, len(theme_tags))\<close> is 2\<close>
  "theme_specific_tags [] theme_lower s = []"
| "theme_specific_tags ((theme_key, theme_tags) # rest) theme_lower s =
     (if py_in theme_key theme_lower then random_sample2 theme_tags s
      else theme_specific_tags rest theme_lower s)"

definition topic_clean :: "pystr \<Rightarrow> pystr" where
  \<comment> \<open>\<open>"".join(word.capitalize() for word in topic.replace("-", " ").split())\<close>\<close>
  "topic_clean topic =
     concat (map py_capitalize (py_split (py_replace_char 45 32 topic)))"

definition collect_hashtags :: "pystr \<Rightarrow> pystr \<Rightarrow> draws \<Rightarrow> pystr list" where
  \<comment> \<open>the list \<open>hashtags\<close> of \<open>generate_hashtags\<close> once the general hashtags are added\<close>
  "collect_hashtags topic theme d =
     [py_remove 32 theme]
     @ (if length (topic_clean topic) \<le> 20 then [topic_clean topic] else [])
     @ theme_specific_tags theme_hashtags (py_lower theme) (theme_pick d)
     @ random_sample2 general_hashtags (general_pick d)"

definition unique_hashtags :: "pystr \<Rightarrow> pystr \<Rightarrow> draws \<Rightarrow> pystr list" where
  \<comment> \<open>\<open>list(dict.fromkeys([f"#{tag}" for tag in hashtags if tag and len(tag) > 2]))\<close>\<close>
  "unique_hashtags topic theme d =
     fromkeys (map (\<lambda>tag. 35 # tag)
       (filter (\<lambda>tag. tag \<noteq> [] \<and> 2 < length tag) (collect_hashtags topic theme d)))"

definition generate_hashtags :: "pystr \<Rightarrow> pystr \<Rightarrow> draws \<Rightarrow> pystr" where
  "generate_hashtags topic theme d = py_join (str '' '') (take 5 (unique_hashtags topic theme d))"

section \<open>The workflow state and its nodes (content\_creator/nodes.py, workflow.py)\<close>

record content_entry =
  Day :: int
  Topic :: pystr
  Caption :: pystr
  Hashtags :: pystr

record content_state =
  brand_theme :: pystr
  days :: int
  topics :: "pystr list"
  content_plan :: "content_entry list"

definition day_planner_node :: "content_state \<Rightarrow> content_state option" where
  \<comment> \<open>the node returns \<open>{"topics": topics}\<close>, which the graph merges into the state\<close>
  "day_planner_node state =
     do {
       ts \<leftarrow> generate_topic_ideas (brand_theme state) (days state);
       Some (state\<lparr>topics := ts\<rparr>)
     }"

fun content_entries :: "pystr \<Rightarrow> (int \<Rightarrow> draws) \<Rightarrow> int \<Rightarrow> pystr list \<Rightarrow> content_entry list" where
  \<comment> \<open>\<open>for i, topic in enumerate(topics, 1)\<close>, from day \<open>i\<close> on; \<open>rnd i\<close> are the draws of day \<open>i\<close>\<close>
  "content_entries theme rnd i [] = []"
| "content_entries theme rnd i (topic # rest) =
     \<lparr>Day = i, Topic = topic,
      Caption = generate_caption topic theme (caption_pick (rnd i)),
      Hashtags = generate_hashtags topic theme (rnd i)\<rparr>
     # content_entries theme rnd (i + 1) rest"

definition content_generator_node :: "(int \<Rightarrow> draws) \<Rightarrow> content_state \<Rightarrow> content_state" where
  "content_generator_node rnd state =
     state\<lparr>content_plan := content_entries (brand_theme state) rnd 1 (topics state)\<rparr>"

definition formatter_node :: "content_state \<Rightarrow> content_state" where
  "formatter_node state = state"

definition save_node :: "content_state \<Rightarrow> content_state" where
  "save_node state = state"

definition run :: "pystr \<Rightarrow> int \<Rightarrow> (int \<Rightarrow> draws) \<Rightarrow> content_state option" where
  \<comment> \<open>\<open>ContentCreatorWorkflow.run\<close>: the graph day\_planner, content\_generator, formatter,
      save, run on the initial state\<close>
  "run theme num_days rnd =
     do {
       planned \<leftarrow> day_planner_node
         \<lparr>brand_theme = theme, days = num_days, topics = [], content_plan = []\<rparr>;
       Some (save_node (formatter_node (content_generator_node rnd planned)))
     }"

definition valid_request :: "pystr \<Rightarrow> int \<Rightarrow> bool" where
  \<comment> \<open>the valid requests of the specification: a theme that is not blank after
      \<open>strip()\<close>, at least one day; the program itself does not test either\<close>
  "valid_request theme num_days = (py_strip theme \<noteq> [] \<and> 1 \<le> num_days)"

section \<open>The model-backed generator (llm\_integration.py)\<close>

text \<open>
  The completion service, the regular-expression search and the JSON parser are outside
  the program. What they hand back is an input of the model: for the topics, whether the
  call or the parser raised, whether the text held a bracketed array, and the parsed
  array; for captions and hashtags, the text of the reply, or \<open>None\<close> when the call
  raised.
\<close>

datatype json_value =
    JString pystr
  | JOther  \<comment> \<open>any JSON value that is not a string\<close>

datatype topics_reply =
    TopicsRaised  \<comment> \<open>the call or \<open>json.loads\<close> raised\<close>
  | TopicsNoArray  \<comment> \<open>\<open>re.search\<close> found no bracketed array in the reply\<close>
  | TopicsArray "json_value list"  \<comment> \<open>the parsed array\<close>

record llm_content_generator =
  use_llm :: bool
  topics_completion :: topics_reply
  caption_completion :: "int \<Rightarrow> pystr option"
  hashtags_completion :: "int \<Rightarrow> pystr option"

definition fallback_topics :: "pystr \<Rightarrow> int \<Rightarrow> pystr list option" where
  "fallback_topics theme num_days = generate_topic_ideas theme num_days"

definition fallback_caption :: "pystr \<Rightarrow> pystr \<Rightarrow> draws \<Rightarrow> pystr" where
  "fallback_caption topic theme d = generate_caption topic theme (caption_pick d)"

definition fallback_hashtags :: "pystr \<Rightarrow> pystr \<Rightarrow> draws \<Rightarrow> pystr" where
  "fallback_hashtags topic theme d = generate_hashtags topic theme d"

fun clean_topics :: "json_value list \<Rightarrow> pystr list" where
  \<comment> \<open>\<open>if isinstance(topic, str) and len(topic.strip()) > 0: clean_topics.append(topic.strip())\<close>\<close>
  "clean_topics [] = []"
| "clean_topics (JString s # rest) =
     (if 0 < length (py_strip s) then py_strip s # clean_topics rest else clean_topics rest)"
| "clean_topics (JOther # rest) = clean_topics rest"

definition generate_topics_with_llm ::
  "bool \<Rightarrow> topics_reply \<Rightarrow> pystr \<Rightarrow> int \<Rightarrow> pystr list option" where
  "generate_topics_with_llm use reply theme num_days =
     (if \<not> use then fallback_topics theme num_days
      else case reply of
        TopicsArray items \<Rightarrow>
          (let cleaned = clean_topics (py_slice_to items num_days) in
           if num_days div 2 \<le> int (length cleaned) then Some (py_slice_to cleaned num_days)
           else fallback_topics theme num_days)
      | _ \<Rightarrow> fallback_topics theme num_days)"

definition strip_hashtag_words :: "pystr \<Rightarrow> pystr" where
  \<comment> \<open>\<open>' '.join([word for word in caption.split() if not word.startswith('#')])\<close>\<close>
  "strip_hashtag_words caption =
     py_join (str '' '') (filter (\<lambda>word. \<not> py_startswith word (str ''#'')) (py_split caption))"

definition generate_caption_with_llm ::
  "bool \<Rightarrow> pystr option \<Rightarrow> pystr \<Rightarrow> pystr \<Rightarrow> draws \<Rightarrow> pystr" where
  "generate_caption_with_llm use reply topic theme d =
     (if \<not> use then fallback_caption topic theme d
      else case reply of
        None \<Rightarrow> fallback_caption topic theme d
      | Some text \<Rightarrow>
          (let caption = py_strip text in
           if caption \<noteq> [] \<and> 10 < length caption then strip_hashtag_words caption
           else fallback_caption topic theme d))"

definition is_word_char :: "nat \<Rightarrow> bool" where
  \<comment> \<open>the class \<open>\w\<close> on ASCII: digits, letters and the underscore; outside ASCII it
      also holds the letters and digits of other scripts, which are left out here\<close>
  "is_word_char c =
     (48 \<le> c \<and> c \<le> 57 \<or> 65 \<le> c \<and> c \<le> 90 \<or> 97 \<le> c \<and> c \<le> 122 \<or> c = 95)"

function findall_hashtags :: "pystr \<Rightarrow> pystr list" where
  \<comment> \<open>\<open>re.findall(r'#\w+', s)\<close>: leftmost matches, each as long as possible\<close>
  "findall_hashtags [] = []"
| "findall_hashtags (c # cs) =
     (if c = 35 \<and> takeWhile is_word_char cs \<noteq> []
      then (c # takeWhile is_word_char cs) # findall_hashtags (dropWhile is_word_char cs)
      else findall_hashtags cs)"
  by pat_completeness auto
termination
  by (relation "measure length") (auto simp: length_dropWhile_le less_Suc_eq_le)

definition generate_hashtags_with_llm ::
  "bool \<Rightarrow> pystr option \<Rightarrow> pystr \<Rightarrow> pystr \<Rightarrow> draws \<Rightarrow> pystr" where
  "generate_hashtags_with_llm use reply topic theme d =
     (if \<not> use then fallback_hashtags topic theme d
      else case reply of
        None \<Rightarrow> fallback_hashtags topic theme d
      | Some text \<Rightarrow>
          (let hashtags = py_strip text in
           if hashtags \<noteq> [] \<and> 3 \<le> length (findall_hashtags hashtags)
           then py_join (str '' '') (take 5 (findall_hashtags hashtags))
           else fallback_hashtags topic theme d))"

section \<open>The enhanced workflow (enhanced\_workflow.py)\<close>

fun llm_content_entries ::
  "llm_content_generator \<Rightarrow> pystr \<Rightarrow> (int \<Rightarrow> draws) \<Rightarrow> int \<Rightarrow> pystr list
     \<Rightarrow> content_entry list" where
  \<comment> \<open>the loop of \<open>_generate_with_llm\<close>, from day \<open>i\<close> on\<close>
  "llm_content_entries g theme rnd i [] = []"
| "llm_content_entries g theme rnd i (topic # rest) =
     \<lparr>Day = i, Topic = topic,
      Caption = generate_caption_with_llm (use_llm g) (caption_completion g i) topic theme (rnd i),
      Hashtags = generate_hashtags_with_llm (use_llm g) (hashtags_completion g i) topic theme (rnd i)\<rparr>
     # llm_content_entries g theme rnd (i + 1) rest"

definition generate_with_llm ::
  "llm_content_generator \<Rightarrow> pystr \<Rightarrow> int \<Rightarrow> (int \<Rightarrow> draws) \<Rightarrow> content_state option" where
  "generate_with_llm g theme num_days rnd =
     do {
       ts \<leftarrow> generate_topics_with_llm (use_llm g) (topics_completion g) theme num_days;
       Some \<lparr>brand_theme = theme, days = num_days, topics = ts,
             content_plan = llm_content_entries g theme rnd 1 ts\<rparr>
     }"

definition generate_enhanced_content_plan ::
  "llm_content_generator option \<Rightarrow> pystr \<Rightarrow> int \<Rightarrow> (int \<Rightarrow> draws) \<Rightarrow> content_state option" where
  \<comment> \<open>\<open>if self.llm_generator and self.llm_generator.use_llm\<close>; the generator is \<open>None\<close>
      when the workflow was built without the model\<close>
  "generate_enhanced_content_plan generator theme num_days rnd =
     (case generator of
        None \<Rightarrow> run theme num_days rnd
      | Some g \<Rightarrow>
          if use_llm g then generate_with_llm g theme num_days rnd
          else run theme num_days rnd)"

section \<open>Notions used to state the properties\<close>

text \<open>
  None of these is a function of the program. \<open>cycle_topics\<close> is the closed form of
  the cycling loop; \<open>category_names\<close> and \<open>name_occurs\<close> follow the words of the
  specification of the classifier (the fixed enumeration order, a case-insensitive
  substring match) and are compared with the search the program makes.
\<close>

definition cycle_topics :: "pystr list \<Rightarrow> nat \<Rightarrow> pystr list" where
  \<comment> \<open>the first \<open>m\<close> entries of the pool repeated from its start\<close>
  "cycle_topics pool m = map (\<lambda>i. pool ! (i mod length pool)) [0..<m]"

definition category_names :: "pystr list" where
  \<comment> \<open>the known categories in their fixed enumeration order\<close>
  "category_names = [(str ''Fitness''), str ''Mental'', str ''Business'', str ''Technology'']"

definition name_occurs :: "pystr \<Rightarrow> pystr \<Rightarrow> bool" where
  \<comment> \<open>the category name occurs in the theme text as a contiguous block, case ignored\<close>
  "name_occurs name themeText =
     (\<exists>before after. py_lower themeText = before @ py_lower name @ after)"

definition valid_draws :: "draws \<Rightarrow> bool" where
  \<comment> \<open>draws the random source can make: 12 templates, pools of 6 and of 8 hashtags\<close>
  "valid_draws d =
     (caption_pick d < 12 \<and> valid_sample 6 (theme_pick d) \<and> valid_sample 8 (general_pick d))"

definition hashtag_tokens :: "pystr \<Rightarrow> pystr \<Rightarrow> draws \<Rightarrow> pystr list" where
  \<comment> \<open>the output of \<open>generate_hashtags\<close> split on spaces, \<open>generate_hashtags(topic, theme).split(" ")\<close>\<close>
  "hashtag_tokens topic theme d = py_split_on 32 (generate_hashtags topic theme d)"

section \<open>Literals\<close>

lemma str_eq_Nil [simp]: "str s = [] \<longleftrightarrow> s = []"
  by (simp add: str_def)

lemma str_space: "str '' '' = [32]"
  by (simp add: str_def)

lemma str_hash: "str ''#'' = [35]"
  by (simp add: str_def)

section \<open>The topic sequence\<close>

lemma length_cycle_topics [simp]: "length (cycle_topics pool m) = m"
  by (simp add: cycle_topics_def)

lemma cycle_topics_append:
  assumes "length pool dvd m" and "k \<le> length pool"
  shows "cycle_topics pool (m + k) = cycle_topics pool m @ take k pool"
proof (rule nth_equalityI)
  show "length (cycle_topics pool (m + k)) = length (cycle_topics pool m @ take k pool)"
    using assms by simp
next
  fix i assume "i < length (cycle_topics pool (m + k))"
  then have i: "i < m + k" by simp
  show "cycle_topics pool (m + k) ! i = (cycle_topics pool m @ take k pool) ! i"
  proof (cases "i < m")
    case True
    then show ?thesis using i by (simp add: cycle_topics_def nth_append)
  next
    case False
    then have "i - m < k" using i by arith
    moreover have "i mod length pool = i - m"
    proof -
      obtain q where q: "m = length pool * q" using assms(1) by (auto simp: dvd_def)
      have "i = (i - m) + length pool * q" using False q by simp
      then have "i mod length pool = (i - m) mod length pool"
        by (metis mod_mult_self2)
      also have "\<dots> = i - m" using \<open>i - m < k\<close> assms(2) by simp
      finally show ?thesis .
    qed
    ultimately show ?thesis using False i by (simp add: cycle_topics_def nth_append)
  qed
qed

lemma cycle_topics_take: "m \<le> length pool \<Longrightarrow> cycle_topics pool m = take m pool"
  using cycle_topics_append [of pool 0 m] by (simp add: cycle_topics_def)

lemma extend_topics_cycle:
  assumes "pool \<noteq> []"
    and "acc = cycle_topics pool (length acc)"
    and "int (length acc) \<le> n"
    and "length pool dvd length acc \<or> int (length acc) = n"
  shows "extend_topics pool n acc = Some (cycle_topics pool (nat n))"
  using assms
proof (induction "nat (n - int (length acc))" arbitrary: acc rule: less_induct)
  case less
  show ?case
  proof (cases "int (length acc) < n")
    case False
    with less.prems have "nat n = length acc" by simp
    with False less.prems(2) show ?thesis by (subst extend_topics.simps) simp
  next
    case True
    with less.prems(4) have dvd: "length pool dvd length acc" by auto
    define r where "r = nat (n - int (length acc))"
    define k where "k = min r (length pool)"
    define acc' where "acc' = acc @ py_slice_to pool (n - int (length acc))"
    have ext: "py_slice_to pool (n - int (length acc)) = take k pool"
      using True by (simp add: py_slice_to_def r_def k_def min_def)
    have len': "length acc' = length acc + k"
      by (simp add: acc'_def ext k_def)
    have cyc': "acc' = cycle_topics pool (length acc')"
      using cycle_topics_append [OF dvd, of k] less.prems(2)
      by (simp add: len' acc'_def ext k_def)
    have kpos: "0 < k" using True less.prems(1) by (simp add: k_def r_def)
    have le': "int (length acc') \<le> n" using True by (simp add: len' k_def r_def)
    have inv': "length pool dvd length acc' \<or> int (length acc') = n"
    proof (cases "r \<le> length pool")
      case True
      then show ?thesis using \<open>int (length acc) < n\<close> by (simp add: len' k_def r_def)
    next
      case False
      then show ?thesis using dvd by (simp add: len' k_def)
    qed
    have "nat (n - int (length acc')) < nat (n - int (length acc))"
      using kpos True by (simp add: len')
    from less.hyps [OF this less.prems(1) cyc' le' inv']
    have "extend_topics pool n acc' = Some (cycle_topics pool (nat n))" .
    with True show ?thesis
      by (subst extend_topics.simps) (simp add: acc'_def)
  qed
qed


lemma themes_keys: "map fst themes = [str ''Fitness'', str ''Mental'', str ''Business'', str ''Technology'']"
  by (simp add: themes_def str_def)

lemma find_theme_key_mem: "find_theme_key keys t = Some k \<Longrightarrow> k \<in> set keys"
  by (induction keys) (auto split: if_splits)

lemma themes_pool:
  assumes "k \<in> set (map fst themes)"
  shows "\<exists>pool. map_of themes k = Some pool \<and> length pool = 30 \<and> k \<noteq> []"
proof -
  have len: "length fitness_topics = 30" "length mental_topics = 30"
    "length business_topics = 30" "length technology_topics = 30"
    by (simp_all add: fitness_topics_def mental_topics_def business_topics_def
        technology_topics_def)
  from assms consider "k = str ''Fitness''" | "k = str ''Mental''" | "k = str ''Business''"
    | "k = str ''Technology''"
    by (auto simp: themes_def)
  then show ?thesis
    by cases (simp_all add: themes_def len str_def)
qed

lemma py_slice_to_nonneg: "0 \<le> n \<Longrightarrow> py_slice_to xs n = take (nat n) xs"
  by (simp add: py_slice_to_def)

lemma generate_topic_ideas_unknown:
  "matched_theme_key theme = None \<Longrightarrow>
     generate_topic_ideas theme n = Some (generic_topics theme n)"
  by (simp add: generate_topic_ideas_def)

lemma generate_topic_ideas_known:
  assumes key: "matched_theme_key theme = Some key"
    and pool: "map_of themes key = Some pool"
    and n: "0 \<le> n"
  shows "generate_topic_ideas theme n = Some (cycle_topics pool (nat n))"
proof -
  from key have mem: "key \<in> set (map fst themes)"
    unfolding matched_theme_key_def by (rule find_theme_key_mem)
  with pool themes_pool [OF mem] have len: "length pool = 30" and ne: "key \<noteq> []" by auto
  then have pne: "pool \<noteq> []" by auto
  define start where "start = py_slice_to pool n"
  have start: "start = take (nat n) pool" using n by (simp add: start_def py_slice_to_nonneg)
  have loop: "extend_topics pool n start = Some (cycle_topics pool (nat n))"
  proof (rule extend_topics_cycle [OF pne])
    show "start = cycle_topics pool (length start)"
      by (simp add: start cycle_topics_take min_def)
    show "int (length start) \<le> n" using n by (simp add: start)
    show "length pool dvd length start \<or> int (length start) = n"
      using n by (cases "nat n \<le> length pool") (auto simp: start min_def)
  qed
  have "py_slice_to (cycle_topics pool (nat n)) n = cycle_topics pool (nat n)"
    using n by (simp add: py_slice_to_nonneg)
  with key pool ne loop show ?thesis
    by (simp add: generate_topic_ideas_def start_def)
qed

lemma generate_topic_ideas_known_negative:
  assumes key: "matched_theme_key theme = Some key"
    and pool: "map_of themes key = Some pool"
    and n: "n < 0"
  shows "generate_topic_ideas theme n = Some (py_slice_to (py_slice_to pool n) n)"
proof -
  from key have mem: "key \<in> set (map fst themes)"
    unfolding matched_theme_key_def by (rule find_theme_key_mem)
  with pool themes_pool [OF mem] have ne: "key \<noteq> []" by auto
  have "extend_topics pool n (py_slice_to pool n) = Some (py_slice_to pool n)"
    using n by (subst extend_topics.simps) simp
  with key pool ne show ?thesis by (simp add: generate_topic_ideas_def)
qed

lemma generate_topic_ideas_total: "\<exists>ts. generate_topic_ideas theme n = Some ts"
proof (cases "matched_theme_key theme")
  case None
  then show ?thesis by (simp add: generate_topic_ideas_unknown)
next
  case (Some key)
  then have "key \<in> set (map fst themes)"
    unfolding matched_theme_key_def by (rule find_theme_key_mem)
  from themes_pool [OF this] obtain pool where "map_of themes key = Some pool" by blast
  with Some show ?thesis
    using generate_topic_ideas_known [of theme key pool n]
      generate_topic_ideas_known_negative [of theme key pool n]
    by (cases "0 \<le> n") auto
qed

lemma generate_topic_ideas_length:
  assumes "0 \<le> n" and "generate_topic_ideas theme n = Some ts"
  shows "length ts = nat n"
proof (cases "matched_theme_key theme")
  case None
  with assms show ?thesis by (auto simp: generate_topic_ideas_unknown generic_topics_def)
next
  case (Some key)
  then have "key \<in> set (map fst themes)"
    unfolding matched_theme_key_def by (rule find_theme_key_mem)
  from themes_pool [OF this] obtain pool where "map_of themes key = Some pool" by blast
  with Some assms show ?thesis
    using generate_topic_ideas_known [of theme key pool n] by auto
qed

lemma content_entries_length: "length (content_entries theme rnd i ts) = length ts"
  by (induction ts arbitrary: i) auto

lemma content_entries_Topic: "map Topic (content_entries theme rnd i ts) = ts"
  by (induction ts arbitrary: i) auto

lemma content_entries_Day:
  "map Day (content_entries theme rnd i ts) = [i..i + int (length ts) - 1]"
proof (induction ts arbitrary: i)
  case Nil
  then show ?case by simp
next
  case (Cons t ts)
  have "[i..i + int (length (t # ts)) - 1] = i # [i + 1..i + 1 + int (length ts) - 1]"
    by (subst upto_rec1) (auto simp: add.commute add.left_commute)
  with Cons show ?case by simp
qed

text \<open>
  Claim C1. For every valid request (a theme that is not blank, at least one day) the
  rule-based topic generator returns exactly \<open>num_days\<close> topics, and the workflow
  returns a content plan of exactly \<open>num_days\<close> entries whose \<open>Day\<close> fields are
  \<open>1, 2, \<dots>, num_days\<close> in list order and whose \<open>Topic\<close> fields are the topics in the
  same order. Both the generator and the workflow return (the cycling loop ends).
\<close>

theorem rule_based_plan_has_day_count_entries:
  assumes "valid_request theme num_days"
  shows "\<exists>ts st. generate_topic_ideas theme num_days = Some ts \<and> length ts = nat num_days
           \<and> run theme num_days rnd = Some st
           \<and> topics st = ts
           \<and> length (content_plan st) = nat num_days
           \<and> map Day (content_plan st) = [1..num_days]
           \<and> map Topic (content_plan st) = ts"
proof -
  from assms have n: "0 \<le> num_days" by (simp add: valid_request_def)
  obtain ts where ts: "generate_topic_ideas theme num_days = Some ts"
    using generate_topic_ideas_total by blast
  have len: "length ts = nat num_days" using n ts by (rule generate_topic_ideas_length)
  define st where "st = \<lparr>brand_theme = theme, days = num_days, topics = ts,
    content_plan = content_entries theme rnd 1 ts\<rparr>"
  have run: "run theme num_days rnd = Some st"
    using ts
    by (simp add: run_def day_planner_node_def content_generator_node_def formatter_node_def
        save_node_def st_def)
  have "map Day (content_plan st) = [1..num_days]"
    using n len by (simp add: st_def content_entries_Day)
  with ts len run show ?thesis
    by (auto simp: st_def content_entries_length content_entries_Topic)
qed


lemma matched_theme_key_Fitness: "matched_theme_key (str ''Fitness for Busy Professionals'') = Some (str ''Fitness'')"
  by (simp add: matched_theme_key_def themes_def py_lower_def py_lower_char_def
      str_def py_startswith_def)

theorem rule_based_plan_has_day_count_entries_witness:
  "valid_request (str ''Fitness for Busy Professionals'') 5
   \<and> map_option length (generate_topic_ideas (str ''Fitness for Busy Professionals'') 5) = Some 5
   \<and> map_option (\<lambda>st. map Day (content_plan st))
        (run (str ''Fitness for Busy Professionals'') 5
           (\<lambda>i. \<lparr>caption_pick = 0, theme_pick = (0, 1), general_pick = (0, 1)\<rparr>))
       = Some [1, 2, 3, 4, 5]"
proof -
  have v: "valid_request (str ''Fitness for Busy Professionals'') 5"
    by (simp add: valid_request_def py_strip_def py_isspace_def str_def)
  have "[1..5::int] = [1, 2, 3, 4, 5]" by (simp add: upto_rec1)
  with v rule_based_plan_has_day_count_entries [OF v,
      of "\<lambda>i. \<lparr>caption_pick = 0, theme_pick = (0, 1), general_pick = (0, 1)\<rparr>"]
  show ?thesis by auto
qed

text \<open>
  Claim C4, evaluated where it fails. For the known theme \<open>Fitness\<close> and \<open>num_days = -5\<close>
  the two slices \<open>[:num_days]\<close> count from the end of the list: the generator returns
  the first 20 topics of the pool, not the empty list. For a theme of no known category
  the same day count gives the empty list.
\<close>

theorem negative_day_count_on_known_theme:
  "generate_topic_ideas (str ''Fitness'') (- 5) = Some (take 20 fitness_topics)
   \<and> length (take 20 fitness_topics) = 20
   \<and> generate_topic_ideas (str ''Unknown Theme Test'') (- 5) = Some []"
proof -
  have key: "matched_theme_key (str ''Fitness'') = Some (str ''Fitness'')"
    by (simp add: matched_theme_key_def themes_def py_lower_def py_lower_char_def
        str_def py_startswith_def)
  have pool: "map_of themes (str ''Fitness'') = Some fitness_topics" by (simp add: themes_def str_def)
  have len: "length fitness_topics = 30" by (simp add: fitness_topics_def)
  have "generate_topic_ideas (str ''Fitness'') (- 5) = Some (take 20 fitness_topics)"
    using generate_topic_ideas_known_negative [OF key pool, of "- 5"] len
    by (simp add: py_slice_to_def)
  moreover have "matched_theme_key (str ''Unknown Theme Test'') = None"
    by (simp add: matched_theme_key_def themes_def py_lower_def py_lower_char_def
        str_def py_startswith_def)
  then have "generate_topic_ideas (str ''Unknown Theme Test'') (- 5) = Some []"
    by (simp add: generate_topic_ideas_unknown generic_topics_def)
  ultimately show ?thesis using len by simp
qed

text \<open>
  Claim C5. For every theme that matches a known category and every \<open>num_days\<close>
  greater than the size of the category's pool, the generator returns \<open>num_days\<close>
  topics, the topic at index \<open>i\<close> being \<open>pool[i mod len(pool)]\<close>; so the topic at
  index \<open>len(pool) + j\<close> is the topic at index \<open>j\<close> (for a pool of 30 and 35 days,
  topics 31 to 35 are topics 1 to 5).
\<close>

theorem known_theme_cycles_its_pool:
  assumes "matched_theme_key theme = Some key"
    and "map_of themes key = Some pool"
    and "int (length pool) < num_days"
  shows "\<exists>ts. generate_topic_ideas theme num_days = Some ts
           \<and> length ts = nat num_days
           \<and> (\<forall>i < nat num_days. ts ! i = pool ! (i mod length pool))
           \<and> (\<forall>j. length pool + j < nat num_days \<longrightarrow> ts ! (length pool + j) = ts ! j)"
proof -
  from assms(3) have n: "0 \<le> num_days" by simp
  have eq: "generate_topic_ideas theme num_days = Some (cycle_topics pool (nat num_days))"
    using assms(1,2) n by (rule generate_topic_ideas_known)
  have nth: "cycle_topics pool (nat num_days) ! i = pool ! (i mod length pool)"
    if "i < nat num_days" for i
    using that by (simp add: cycle_topics_def)
  have "cycle_topics pool (nat num_days) ! (length pool + j) = cycle_topics pool (nat num_days) ! j"
    if "length pool + j < nat num_days" for j
  proof -
    from that have "j < nat num_days" by simp
    with that show ?thesis by (simp add: nth)
  qed
  with eq nth show ?thesis by simp
qed

theorem known_theme_cycles_its_pool_witness:
  "matched_theme_key (str ''Business'') = Some (str ''Business'')
   \<and> map_of themes (str ''Business'') = Some business_topics
   \<and> int (length business_topics) < 35
   \<and> length business_topics = 30
   \<and> (\<exists>ts. generate_topic_ideas (str ''Business'') 35 = Some ts \<and> length ts = 35
         \<and> ts ! 30 = ts ! 0 \<and> ts ! 31 = ts ! 1 \<and> ts ! 32 = ts ! 2
         \<and> ts ! 33 = ts ! 3 \<and> ts ! 34 = ts ! 4
         \<and> ts ! 34 = str ''Team Building Activities'')"
proof -
  have key: "matched_theme_key (str ''Business'') = Some (str ''Business'')"
    by (simp add: matched_theme_key_def themes_def py_lower_def py_lower_char_def
        str_def py_startswith_def)
  have pool: "map_of themes (str ''Business'') = Some business_topics" by (simp add: themes_def str_def)
  have len: "length business_topics = 30" by (simp add: business_topics_def)
  then have lt: "int (length business_topics) < 35" by simp
  from known_theme_cycles_its_pool [OF key pool lt] obtain ts where
    ts: "generate_topic_ideas (str ''Business'') 35 = Some ts" "length ts = nat 35"
    and nth: "\<forall>i < nat 35. ts ! i = business_topics ! (i mod length business_topics)"
    and wrap: "\<forall>j. length business_topics + j < nat 35 \<longrightarrow> ts ! (length business_topics + j) = ts ! j"
    by blast
  have "ts ! 30 = ts ! 0" using wrap [rule_format, of 0] len by simp
  moreover have "ts ! 31 = ts ! 1" using wrap [rule_format, of 1] len by simp
  moreover have "ts ! 32 = ts ! 2" using wrap [rule_format, of 2] len by simp
  moreover have "ts ! 33 = ts ! 3" using wrap [rule_format, of 3] len by simp
  moreover have "ts ! 34 = ts ! 4" using wrap [rule_format, of 4] len by simp
  moreover have "ts ! 34 = str ''Team Building Activities''"
    using nth [rule_format, of 34] len by (simp add: business_topics_def)
  ultimately show ?thesis using key pool lt len ts by simp
qed

section \<open>The theme classifier\<close>

lemma py_startswith_iff: "py_startswith s p \<longleftrightarrow> (\<exists>r. s = p @ r)"
proof
  assume "py_startswith s p"
  then have "s = p @ drop (length p) s"
    by (metis append_take_drop_id py_startswith_def)
  then show "\<exists>r. s = p @ r" ..
next
  assume "\<exists>r. s = p @ r"
  then show "py_startswith s p" by (auto simp: py_startswith_def)
qed

lemma py_in_iff: "py_in needle h \<longleftrightarrow> (\<exists>p s. h = p @ needle @ s)"
proof (induction h)
  case Nil
  then show ?case by simp
next
  case (Cons x xs)
  show ?case
  proof
    assume "py_in needle (x # xs)"
    then consider "py_startswith (x # xs) needle" | "py_in needle xs" by auto
    then show "\<exists>p s. x # xs = p @ needle @ s"
    proof cases
      case 1
      then obtain r where "x # xs = needle @ r" by (auto simp: py_startswith_iff)
      then have "x # xs = [] @ needle @ r" by simp
      then show ?thesis by blast
    next
      case 2
      with Cons obtain p s where "xs = p @ needle @ s" by blast
      then have "x # xs = (x # p) @ needle @ s" by simp
      then show ?thesis by blast
    qed
  next
    assume "\<exists>p s. x # xs = p @ needle @ s"
    then obtain p s where ps: "x # xs = p @ needle @ s" by blast
    show "py_in needle (x # xs)"
    proof (cases p)
      case Nil
      with ps have "py_startswith (x # xs) needle" by (auto simp: py_startswith_iff)
      then show ?thesis by simp
    next
      case (Cons y p')
      with ps have "xs = p' @ needle @ s" by simp
      with Cons.IH have "py_in needle xs" by blast
      then show ?thesis by simp
    qed
  qed
qed

lemma find_theme_key_first:
  "find_theme_key keys t = Some k \<longleftrightarrow>
     (\<exists>i<length keys. keys ! i = k \<and> py_in (py_lower k) t
        \<and> (\<forall>j<i. \<not> py_in (py_lower (keys ! j)) t))"
proof (induction keys)
  case Nil
  then show ?case by simp
next
  case (Cons a keys)
  show ?case
  proof (cases "py_in (py_lower a) t")
    case True
    have "(\<exists>i<length (a # keys). (a # keys) ! i = k \<and> py_in (py_lower k) t
        \<and> (\<forall>j<i. \<not> py_in (py_lower ((a # keys) ! j)) t)) \<longleftrightarrow> a = k"
    proof
      assume "\<exists>i<length (a # keys). (a # keys) ! i = k \<and> py_in (py_lower k) t
        \<and> (\<forall>j<i. \<not> py_in (py_lower ((a # keys) ! j)) t)"
      then obtain i where i: "(a # keys) ! i = k"
        "\<forall>j<i. \<not> py_in (py_lower ((a # keys) ! j)) t" by blast
      have "i = 0"
      proof (rule ccontr)
        assume "i \<noteq> 0"
        then have "0 < i" by simp
        with i(2) have "\<not> py_in (py_lower ((a # keys) ! 0)) t" by blast
        with True show False by simp
      qed
      with i(1) show "a = k" by simp
    next
      assume "a = k"
      with True have "(a # keys) ! 0 = k \<and> py_in (py_lower k) t
        \<and> (\<forall>j<0. \<not> py_in (py_lower ((a # keys) ! j)) t)" by simp
      then show "\<exists>i<length (a # keys). (a # keys) ! i = k \<and> py_in (py_lower k) t
        \<and> (\<forall>j<i. \<not> py_in (py_lower ((a # keys) ! j)) t)" by blast
    qed
    with True show ?thesis by simp
  next
    case False
    have "(\<exists>i<length (a # keys). (a # keys) ! i = k \<and> py_in (py_lower k) t
        \<and> (\<forall>j<i. \<not> py_in (py_lower ((a # keys) ! j)) t)) \<longleftrightarrow>
      (\<exists>i<length keys. keys ! i = k \<and> py_in (py_lower k) t
        \<and> (\<forall>j<i. \<not> py_in (py_lower (keys ! j)) t))" (is "?L \<longleftrightarrow> ?R")
    proof
      assume ?L
      then obtain i where i: "i < length (a # keys)" "(a # keys) ! i = k" "py_in (py_lower k) t"
        "\<forall>j<i. \<not> py_in (py_lower ((a # keys) ! j)) t" by blast
      with False obtain i' where i': "i = Suc i'" by (cases i) auto
      have "\<forall>j<i'. \<not> py_in (py_lower (keys ! j)) t"
      proof (intro allI impI)
        fix j assume "j < i'"
        then have "Suc j < i" using i' by simp
        with i(4) have "\<not> py_in (py_lower ((a # keys) ! Suc j)) t" by blast
        then show "\<not> py_in (py_lower (keys ! j)) t" by simp
      qed
      with i i' show ?R by auto
    next
      assume ?R
      then obtain i where i: "i < length keys" "keys ! i = k" "py_in (py_lower k) t"
        "\<forall>j<i. \<not> py_in (py_lower (keys ! j)) t" by blast
      have "\<forall>j<Suc i. \<not> py_in (py_lower ((a # keys) ! j)) t"
      proof (intro allI impI)
        fix j assume "j < Suc i"
        then show "\<not> py_in (py_lower ((a # keys) ! j)) t"
          using False i(4) by (cases j) auto
      qed
      with i have "Suc i < length (a # keys) \<and> (a # keys) ! Suc i = k \<and> py_in (py_lower k) t
        \<and> (\<forall>j<Suc i. \<not> py_in (py_lower ((a # keys) ! j)) t)" by simp
      then show ?L by blast
    qed
    with False Cons.IH show ?thesis by simp
  qed
qed

lemma find_theme_key_None:
  "find_theme_key keys t = None \<longleftrightarrow> (\<forall>k\<in>set keys. \<not> py_in (py_lower k) t)"
  by (induction keys) auto

lemma category_names_keys: "map fst themes = category_names"
  by (simp add: themes_def category_names_def)

lemma py_in_name_occurs: "py_in (py_lower name) (py_lower theme) \<longleftrightarrow> name_occurs name theme"
  by (simp add: py_in_iff name_occurs_def)

text \<open>
  Claim C7. The classifier compares each known category name, in the fixed order
  Fitness, Mental, Business, Technology, with the theme text, case ignored, and returns
  the first name that occurs in it as a contiguous block; it returns \<open>None\<close> exactly
  when no name occurs. The result is a function of the lower-cased theme text alone:
  there is no state to read or change, and equal inputs give equal results.
\<close>

theorem classifier_returns_first_matching_category:
  "(matched_theme_key theme = Some name \<longleftrightarrow>
      (\<exists>i<length category_names. category_names ! i = name \<and> name_occurs name theme
         \<and> (\<forall>j<i. \<not> name_occurs (category_names ! j) theme)))
   \<and> (matched_theme_key theme = None \<longleftrightarrow>
      (\<forall>name\<in>set category_names. \<not> name_occurs name theme))
   \<and> (py_lower theme' = py_lower theme \<longrightarrow> matched_theme_key theme' = matched_theme_key theme)"
  by (simp add: matched_theme_key_def category_names_keys find_theme_key_first
      find_theme_key_None py_in_name_occurs)

theorem classifier_returns_first_matching_category_witness:
  "matched_theme_key (str ''MENTAL fitness and Business'') = Some (str ''Fitness'')
   \<and> (\<exists>i<length category_names. category_names ! i = str ''Fitness''
         \<and> name_occurs (str ''Fitness'') (str ''MENTAL fitness and Business'')
         \<and> (\<forall>j<i. \<not> name_occurs (category_names ! j) (str ''MENTAL fitness and Business'')))
   \<and> matched_theme_key (str ''Cooking at Home'') = None"
proof -
  have a: "matched_theme_key (str ''MENTAL fitness and Business'') = Some (str ''Fitness'')"
    by (simp add: matched_theme_key_def themes_def py_lower_def py_lower_char_def
        str_def py_startswith_def)
  have b: "matched_theme_key (str ''Cooking at Home'') = None"
    by (simp add: matched_theme_key_def themes_def py_lower_def py_lower_char_def
        str_def py_startswith_def)
  from a classifier_returns_first_matching_category
    [of "str ''MENTAL fitness and Business''" "str ''Fitness''"]
  have "\<exists>i<length category_names. category_names ! i = str ''Fitness''
         \<and> name_occurs (str ''Fitness'') (str ''MENTAL fitness and Business'')
         \<and> (\<forall>j<i. \<not> name_occurs (category_names ! j) (str ''MENTAL fitness and Business''))"
    by blast
  with a b show ?thesis by blast
qed

section \<open>Captions\<close>

lemma py_in_refl: "py_in n n"
  using py_in_iff [of n n] by (metis append_Nil append_Nil2)

lemma py_in_self_prefix: "py_in n (n @ s)"
  using py_in_iff [of n "n @ s"] by (metis append_Nil)

lemma py_in_Cons: "py_in n h \<Longrightarrow> py_in n (x # h)"
  by simp

lemma py_in_append_left: "py_in n h \<Longrightarrow> py_in n (p @ h)"
  by (induction p) simp_all

lemma length_templates: "length (templates topic theme) = 12"
  by (simp add: templates_def Let_def)

lemma templates_nonempty: "list_all (\<lambda>c. c \<noteq> []) (templates topic theme)"
  by (simp add: templates_def Let_def)

lemma templates_contain_topic: "list_all (py_in topic) (templates topic theme)"
  unfolding templates_def Let_def list_all_Cons_iff list_all_Nil_iff
  by (intro conjI TrueI;
      (rule py_in_self_prefix | rule py_in_refl | rule py_in_Cons | rule py_in_append_left)+)

lemma templates_contain_theme:
  "list_all (py_in (py_lower theme))
     (take 3 (templates topic theme) @ drop 4 (templates topic theme))"
proof -
  have "take 3 (templates topic theme) @ drop 4 (templates topic theme) =
    (let theme_lower = py_lower theme in
      [emoji_bulb @ (str '' '') @ topic @ (str '': Your '') @ theme_lower
         @ (str '' game-changer! Ready to level up? Let's dive in! '') @ emoji_rocket,
       emoji_star2 @ (str '' Today's spotlight: '') @ topic @ (str ''. Small steps, big results in your '')
         @ theme_lower @ (str '' journey! '') @ emoji_sparkles,
       emoji_fire @ (str '' '') @ topic @ (str '' - the secret sauce to crushing your '') @ theme_lower
         @ (str '' goals! Who's ready to try this? '') @ emoji_muscle,
       emoji_dart @ (str '' Focus Friday: '') @ topic @ (str ''. Because consistency in '') @ theme_lower
         @ (str '' creates magic! '') @ emoji_sparkles,
       emoji_muscle @ (str '' '') @ topic @ (str '' isn't just a tip - it's your pathway to '')
         @ theme_lower @ (str '' success! Let's go! '') @ emoji_rocket,
       emoji_seedling @ (str '' Growing stronger every day with '') @ topic @ (str ''. Your '')
         @ theme_lower @ (str '' journey matters! '') @ emoji_green_heart,
       emoji_zap @ (str '' Power up your '') @ theme_lower @ (str '' with '') @ topic
         @ (str ''! Simple changes, powerful results '') @ emoji_fire,
       emoji_tada @ (str '' Celebrating progress with '') @ topic @ (str ''! Every step counts in your '')
         @ theme_lower @ (str '' story '') @ emoji_chart,
       emoji_brain @ (str '' Smart strategy: '') @ topic @ (str ''. Work smarter, not harder in your '')
         @ theme_lower @ (str '' journey! '') @ emoji_bulb,
       emoji_rainbow @ (str '' Brighten your day with '') @ topic @ (str ''! Making '') @ theme_lower
         @ (str '' fun and sustainable '') @ emoji_blush,
       emoji_star @ (str '' Pro tip: '') @ topic @ (str '' is your secret weapon for '') @ theme_lower
         @ (str '' success! Ready to shine? '') @ emoji_sparkles])"
    by (simp add: templates_def Let_def)
  also have "list_all (py_in (py_lower theme)) \<dots>"
    unfolding Let_def list_all_Cons_iff list_all_Nil_iff
    by (intro conjI TrueI;
      (rule py_in_self_prefix | rule py_in_refl | rule py_in_Cons | rule py_in_append_left)+)
  finally show ?thesis .
qed


lemma nth_take_drop_skip:
  assumes "i < length xs" and "i \<noteq> k"
  shows "xs ! i \<in> set (take k xs @ drop (Suc k) xs)"
proof (cases "i < k")
  case True
  with assms have "xs ! i = take k xs ! i" "i < length (take k xs)" by simp_all
  then show ?thesis by (metis Un_iff nth_mem set_append)
next
  case False
  with assms have "Suc k \<le> i" by simp
  with assms have "drop (Suc k) xs ! (i - Suc k) = xs ! i"
    and "i - Suc k < length (drop (Suc k) xs)" by simp_all
  then have "xs ! i \<in> set (drop (Suc k) xs)" by (metis nth_mem)
  then show ?thesis by simp
qed

text \<open>
  Claim C8, as amended. There are 12 caption templates and every one interpolates the
  topic. Eleven of them also interpolate the lower-cased theme text; the fourth
  interpolates the theme text with its spaces removed instead. So for every topic, theme
  and choice the caption is not empty and contains the topic, and it contains the
  lower-cased theme text for every choice but the fourth.
\<close>

theorem caption_mentions_topic_and_theme:
  assumes "pick < 12"
  shows "length (templates topic theme) = 12
     \<and> generate_caption topic theme pick \<noteq> []
     \<and> py_in topic (generate_caption topic theme pick)
     \<and> (pick \<noteq> 3 \<longrightarrow> py_in (py_lower theme) (generate_caption topic theme pick))
     \<and> (pick = 3 \<longrightarrow> py_in (py_remove 32 theme) (generate_caption topic theme pick))"
proof -
  have len: "pick < length (templates topic theme)" using assms by (simp add: length_templates)
  have ne: "generate_caption topic theme pick \<noteq> []"
    using templates_nonempty [of topic theme] len
    by (simp add: list_all_length generate_caption_def random_choice_def)
  have tp: "py_in topic (generate_caption topic theme pick)"
    using templates_contain_topic [of topic theme] len
    by (simp add: list_all_length generate_caption_def random_choice_def)
  have th: "py_in (py_lower theme) (generate_caption topic theme pick)" if "pick \<noteq> 3"
  proof -
    have "templates topic theme ! pick
        \<in> set (take 3 (templates topic theme) @ drop (Suc 3) (templates topic theme))"
      using len that by (rule nth_take_drop_skip)
    with templates_contain_theme [of theme topic] show ?thesis
      by (simp add: list_all_iff generate_caption_def random_choice_def del: set_append)
  qed
  have fourth: "templates topic theme ! 3 =
      emoji_sparkles @ (str '' Transform your routine with '') @ topic
        @ (str ''! Your future self will thank you '') @ emoji_pray @ (str '' #'')
        @ py_remove 32 theme"
    by (simp add: templates_def Let_def)
  have "py_in (py_remove 32 theme) (templates topic theme ! 3)"
    unfolding fourth
    by (rule py_in_self_prefix | rule py_in_refl | rule py_in_Cons | rule py_in_append_left)+
  with len ne tp th show ?thesis
    by (simp add: length_templates generate_caption_def random_choice_def)
qed


theorem caption_mentions_topic_and_theme_witness:
  "(5::nat) < 12
   \<and> generate_caption (str ''Desk Yoga Poses'') (str ''Fitness'') 5 \<noteq> []
   \<and> py_in (str ''Desk Yoga Poses'') (generate_caption (str ''Desk Yoga Poses'') (str ''Fitness'') 5)
   \<and> py_in (str ''fitness'') (generate_caption (str ''Desk Yoga Poses'') (str ''Fitness'') 5)"
proof -
  have "py_lower (str ''Fitness'') = str ''fitness''"
    by (simp add: py_lower_def py_lower_char_def str_def)
  with caption_mentions_topic_and_theme [of 5 "str ''Desk Yoga Poses''" "str ''Fitness''"]
  show ?thesis by simp
qed

text \<open>
  Claim C8 as stated fails on the fourth template: for the theme \<open>Fitness\<close> the caption
  ends in \<open>#Fitness\<close> and does not contain \<open>fitness\<close>.
\<close>

theorem fourth_template_omits_lower_cased_theme:
  "(3::nat) < length (templates (str ''Desk Yoga Poses'') (str ''Fitness''))
   \<and> py_lower (str ''Fitness'') = str ''fitness''
   \<and> generate_caption (str ''Desk Yoga Poses'') (str ''Fitness'') 3 =
       emoji_sparkles @ (str '' Transform your routine with Desk Yoga Poses! Your future self will thank you '')
         @ emoji_pray @ (str '' #Fitness'')
   \<and> \<not> py_in (py_lower (str ''Fitness'')) (generate_caption (str ''Desk Yoga Poses'') (str ''Fitness'') 3)"
  by (simp add: generate_caption_def random_choice_def templates_def Let_def py_lower_def
      py_lower_char_def str_def py_remove_def py_startswith_def
      emoji_sparkles_def emoji_pray_def)

section \<open>The model-backed caption and topic operations\<close>

lemma split_ws_words:
  "\<forall>w\<in>set (split_ws acc s). w \<noteq> [] \<and> (\<forall>c\<in>set w. c \<in> set acc \<or> \<not> py_isspace c)"
proof (induction s arbitrary: acc)
  case Nil
  then show ?case by simp
next
  case (Cons a s)
  show ?case
  proof (cases "py_isspace a")
    case True
    with Cons [of "[]"] show ?thesis by auto
  next
    case False
    with Cons [of "acc @ [a]"] show ?thesis by auto
  qed
qed

lemma py_split_words: "\<forall>w\<in>set (py_split s). w \<noteq> [] \<and> (\<forall>c\<in>set w. \<not> py_isspace c)"
  using split_ws_words [of "[]" s] by (simp add: py_split_def)

lemma generate_caption_with_llm_reply:
  "generate_caption_with_llm True (Some text) topic theme d =
     (if 10 < length (py_strip text) then strip_hashtag_words (py_strip text)
      else fallback_caption topic theme d)"
proof -
  have "10 < length (py_strip text) \<Longrightarrow> py_strip text \<noteq> []" by auto
  then show ?thesis by (auto simp: generate_caption_with_llm_def Let_def)
qed

lemma short_emoji_reply_falls_back:
  "generate_caption_with_llm True (Some (str ''Go '' @ [0x1F4AA, 0x1F4AA, 0x1F4AA])) topic theme d
     = fallback_caption topic theme d"
  by (simp add: generate_caption_with_llm_reply py_strip_def py_isspace_def str_def)

text \<open>
  Claim C9, evaluated where it fails. The reply \<open>#fitness #goals\<close> is 15 characters
  long, so the test \<open>if caption and len(caption) > 10\<close> accepts it; the hashtags are
  removed after the test, and what is returned is the empty caption, where the claim has
  the rule-based caption, which is not empty. In the same way the reply
  \<open>Try it! #fitness #goals\<close> is returned as \<open>Try it!\<close>, 7 characters long.
\<close>

theorem hashtag_only_reply_gives_empty_caption:
  "py_strip (str ''#fitness #goals'') = str ''#fitness #goals''
   \<and> length (str ''#fitness #goals'') = 15
   \<and> strip_hashtag_words (str ''#fitness #goals'') = []
   \<and> generate_caption_with_llm True (Some (str ''#fitness #goals''))
        (str ''Desk Yoga Poses'') (str ''Fitness'')
        \<lparr>caption_pick = 0, theme_pick = (0, 1), general_pick = (0, 1)\<rparr> = []
   \<and> fallback_caption (str ''Desk Yoga Poses'') (str ''Fitness'')
        \<lparr>caption_pick = 0, theme_pick = (0, 1), general_pick = (0, 1)\<rparr> \<noteq> []
   \<and> generate_caption_with_llm True (Some (str ''Try it! #fitness #goals''))
        (str ''Desk Yoga Poses'') (str ''Fitness'')
        \<lparr>caption_pick = 0, theme_pick = (0, 1), general_pick = (0, 1)\<rparr> = str ''Try it!''
   \<and> length (str ''Try it!'') = 7"
proof -
  have s1: "py_strip (str ''#fitness #goals'') = str ''#fitness #goals''"
    by (simp add: py_strip_def py_isspace_def str_def)
  have s2: "py_strip (str ''Try it! #fitness #goals'') = str ''Try it! #fitness #goals''"
    by (simp add: py_strip_def py_isspace_def str_def)
  have h1: "strip_hashtag_words (str ''#fitness #goals'') = []"
    by (simp add: strip_hashtag_words_def py_split_def py_isspace_def py_startswith_def str_def)
  have h2: "strip_hashtag_words (str ''Try it! #fitness #goals'') = str ''Try it!''"
    by (simp add: strip_hashtag_words_def py_split_def py_isspace_def py_startswith_def str_def)
  have f: "fallback_caption (str ''Desk Yoga Poses'') (str ''Fitness'')
        \<lparr>caption_pick = 0, theme_pick = (0, 1), general_pick = (0, 1)\<rparr> \<noteq> []"
    by (simp add: fallback_caption_def generate_caption_def random_choice_def templates_def Let_def
        emoji_bulb_def)
  have l: "length (str ''#fitness #goals'') = 15" "length (str ''Try it!'') = 7"
    "length (str ''Try it! #fitness #goals'') = 23"
    by (simp_all add: str_def)
  show ?thesis
    using s1 s2 h1 h2 f l by (simp add: generate_caption_with_llm_reply)
qed

text \<open>
  Claim C3, evaluated where it fails. For 5 days the test \<open>len(clean_topics) >= num_days // 2\<close>
  accepts 2 parsed topics, fewer than half of 5, and they are returned as they are; for
  1 day it accepts the empty array. The rule-based sequence for 5 days has 5 topics.
\<close>

theorem fewer_than_half_the_topics_accepted:
  "generate_topics_with_llm True
      (TopicsArray [JString (str ''Stretch at your desk''), JString (str '' Walk at lunch '')])
      (str ''Fitness'') 5
     = Some [str ''Stretch at your desk'', str ''Walk at lunch'']
   \<and> generate_topics_with_llm True (TopicsArray []) (str ''Fitness'') 1 = Some []
   \<and> map_option length (fallback_topics (str ''Fitness'') 5) = Some 5"
proof -
  have key: "matched_theme_key (str ''Fitness'') = Some (str ''Fitness'')"
    by (simp add: matched_theme_key_def themes_def py_lower_def py_lower_char_def
        str_def py_startswith_def)
  have pool: "map_of themes (str ''Fitness'') = Some fitness_topics" by (simp add: themes_def str_def)
  have "map_option length (fallback_topics (str ''Fitness'') 5) = Some 5"
    using generate_topic_ideas_known [OF key pool, of 5] by (simp add: fallback_topics_def)
  then show ?thesis
    by (simp add: generate_topics_with_llm_def Let_def py_slice_to_def py_strip_def py_isspace_def
        str_def)
qed

section \<open>The length of the content plan\<close>

lemma llm_content_entries_length: "length (llm_content_entries g theme rnd i ts) = length ts"
  by (induction ts arbitrary: i) auto

lemma llm_content_entries_Topic: "map Topic (llm_content_entries g theme rnd i ts) = ts"
  by (induction ts arbitrary: i) auto

lemma llm_content_entries_Day:
  "map Day (llm_content_entries g theme rnd i ts) = [i..i + int (length ts) - 1]"
proof (induction ts arbitrary: i)
  case Nil
  then show ?case by simp
next
  case (Cons t ts)
  have "[i..i + int (length (t # ts)) - 1] = i # [i + 1..i + 1 + int (length ts) - 1]"
    by (subst upto_rec1) (auto simp: add.commute add.left_commute)
  with Cons show ?case by simp
qed

lemma length_clean_topics: "length (clean_topics items) \<le> length items"
  by (induction items rule: clean_topics.induct) auto

lemma run_result:
  assumes "generate_topic_ideas theme n = Some ts"
  shows "run theme n rnd = Some \<lparr>brand_theme = theme, days = n, topics = ts,
    content_plan = content_entries theme rnd 1 ts\<rparr>"
  using assms
  by (simp add: run_def day_planner_node_def content_generator_node_def formatter_node_def
      save_node_def)

lemma length_clean_slice:
  assumes "0 \<le> n"
  shows "length (clean_topics (py_slice_to items n)) \<le> nat n"
proof -
  have "length (clean_topics (py_slice_to items n)) \<le> length (py_slice_to items n)"
    by (rule length_clean_topics)
  also have "\<dots> \<le> nat n" using assms by (simp add: py_slice_to_nonneg)
  finally show ?thesis .
qed

lemma generate_topics_with_llm_array:
  assumes "0 \<le> n"
  shows "generate_topics_with_llm True (TopicsArray items) theme n =
     (if n div 2 \<le> int (length (clean_topics (py_slice_to items n)))
      then Some (clean_topics (py_slice_to items n))
      else generate_topic_ideas theme n)"
proof -
  have "py_slice_to (clean_topics (py_slice_to items n)) n = clean_topics (py_slice_to items n)"
    using assms length_clean_slice [OF assms, of items] by (simp add: py_slice_to_nonneg)
  then show ?thesis
    by (simp add: generate_topics_with_llm_def Let_def fallback_topics_def)
qed

lemma generate_topics_with_llm_no_array:
  assumes "\<forall>items. reply \<noteq> TopicsArray items"
  shows "generate_topics_with_llm use reply theme n = generate_topic_ideas theme n"
  using assms by (cases reply) (auto simp: generate_topics_with_llm_def fallback_topics_def)

lemma generate_with_llm_result:
  assumes "generate_topics_with_llm (use_llm g) (topics_completion g) theme n = Some ts"
  shows "generate_with_llm g theme n rnd = Some \<lparr>brand_theme = theme, days = n, topics = ts,
    content_plan = llm_content_entries g theme rnd 1 ts\<rparr>"
  using assms by (simp add: generate_with_llm_def)

text \<open>
  Claim C2, as amended. For every valid request the pipeline returns, with one content
  entry per topic, numbered from 1 in topic order, with at least \<open>num_days // 2\<close> and
  at most \<open>num_days\<close> entries. The plan is built on the full rule-based topic sequence,
  and so has exactly \<open>num_days\<close> entries, with the rule-based backend, when the model
  gives no parsed array, and when the parsed array holds fewer than \<open>num_days // 2\<close>
  valid strings among its first \<open>num_days\<close> items. When it holds at least half of
  \<open>num_days\<close> valid strings, these are the topics of the plan, one entry each, which
  can be fewer than \<open>num_days\<close>: an accepted array is not filled up by the fallback.
\<close>

theorem plan_has_day_count_entries_or_the_accepted_topics:
  assumes "valid_request theme n"
  shows "\<exists>st. generate_enhanced_content_plan generator theme n rnd = Some st
     \<and> length (content_plan st) = length (topics st)
     \<and> map Day (content_plan st) = [1..int (length (topics st))]
     \<and> map Topic (content_plan st) = topics st
     \<and> n div 2 \<le> int (length (content_plan st))
     \<and> length (content_plan st) \<le> nat n
     \<and> ((\<forall>g. generator = Some g \<longrightarrow> \<not> use_llm g) \<longrightarrow>
           generate_topic_ideas theme n = Some (topics st) \<and> length (content_plan st) = nat n)
     \<and> (\<forall>g. generator = Some g \<longrightarrow> use_llm g \<longrightarrow>
           (\<forall>items. topics_completion g \<noteq> TopicsArray items) \<longrightarrow>
           generate_topic_ideas theme n = Some (topics st) \<and> length (content_plan st) = nat n)
     \<and> (\<forall>g items. generator = Some g \<longrightarrow> use_llm g \<longrightarrow>
           topics_completion g = TopicsArray items \<longrightarrow>
           (int (length (clean_topics (py_slice_to items n))) < n div 2 \<longrightarrow>
              generate_topic_ideas theme n = Some (topics st)
              \<and> length (content_plan st) = nat n)
           \<and> (n \<le> 2 * int (length (clean_topics (py_slice_to items n))) \<longrightarrow>
                topics st = clean_topics (py_slice_to items n)))"
proof -
  from assms have n: "0 \<le> n" by (simp add: valid_request_def)
  obtain fb where fb: "generate_topic_ideas theme n = Some fb"
    using generate_topic_ideas_total by blast
  have fblen: "length fb = nat n" using n fb by (rule generate_topic_ideas_length)
  have half: "n div 2 \<le> int (nat n)" using n by simp
  show ?thesis
  proof (cases "\<exists>g. generator = Some g \<and> use_llm g")
    case False
    have "generate_enhanced_content_plan generator theme n rnd = run theme n rnd"
      using False by (cases generator) (auto simp: generate_enhanced_content_plan_def)
    with run_result [OF fb, of rnd] fblen fb half False show ?thesis
      by (auto simp: content_entries_length content_entries_Topic content_entries_Day)
  next
    case True
    then obtain g where g: "generator = Some g" "use_llm g" by blast
    have plan: "generate_enhanced_content_plan generator theme n rnd
        = generate_with_llm g theme n rnd"
      using g by (simp add: generate_enhanced_content_plan_def)
    show ?thesis
    proof (cases "\<exists>items. topics_completion g = TopicsArray items
        \<and> n div 2 \<le> int (length (clean_topics (py_slice_to items n)))")
      case False
      have "generate_topics_with_llm (use_llm g) (topics_completion g) theme n = Some fb"
      proof (cases "\<exists>items. topics_completion g = TopicsArray items")
        case True
        then obtain items where it: "topics_completion g = TopicsArray items" by blast
        with False have "\<not> n div 2 \<le> int (length (clean_topics (py_slice_to items n)))"
          by blast
        with it g fb show ?thesis by (simp add: generate_topics_with_llm_array [OF n])
      next
        case False
        then show ?thesis using fb by (simp add: generate_topics_with_llm_no_array)
      qed
      from generate_with_llm_result [OF this, of rnd] plan
      have res: "generate_enhanced_content_plan generator theme n rnd
          = Some \<lparr>brand_theme = theme, days = n, topics = fb,
              content_plan = llm_content_entries g theme rnd 1 fb\<rparr>" by simp
      have gap: "\<not> n \<le> 2 * int (length (clean_topics (py_slice_to items n)))"
        if "topics_completion g = TopicsArray items" for items
      proof -
        from that False have "int (length (clean_topics (py_slice_to items n))) < n div 2"
          by auto
        then show ?thesis by linarith
      qed
      show ?thesis
        using res g fb fblen half gap
        by (auto simp: llm_content_entries_length llm_content_entries_Topic
            llm_content_entries_Day)
    next
      case True
      then obtain items where it: "topics_completion g = TopicsArray items"
        and acc: "n div 2 \<le> int (length (clean_topics (py_slice_to items n)))" by blast
      define cleaned where "cleaned = clean_topics (py_slice_to items n)"
      have le: "length cleaned \<le> nat n"
        unfolding cleaned_def using n by (rule length_clean_slice)
      have "generate_topics_with_llm (use_llm g) (topics_completion g) theme n = Some cleaned"
        using it g acc by (simp add: generate_topics_with_llm_array [OF n] cleaned_def)
      from generate_with_llm_result [OF this, of rnd] plan
      have res: "generate_enhanced_content_plan generator theme n rnd
          = Some \<lparr>brand_theme = theme, days = n, topics = cleaned,
              content_plan = llm_content_entries g theme rnd 1 cleaned\<rparr>" by simp
      show ?thesis
        using res g it acc le
        by (auto simp: llm_content_entries_length llm_content_entries_Topic
            llm_content_entries_Day cleaned_def)
    qed
  qed
qed

text \<open>
  Claim C2 as stated fails when the model returns half of the topics asked for: for 4
  days and a parsed array of 2 topics the array is accepted and the plan has 2 entries.
\<close>

theorem accepted_short_topic_list_gives_short_plan:
  "valid_request (str ''Fitness'') 4
   \<and> map_option (\<lambda>st. length (content_plan st))
        (generate_enhanced_content_plan
           (Some \<lparr>use_llm = True,
                  topics_completion =
                    TopicsArray [JString (str ''Stretch at your desk''),
                                 JString (str ''Walk at lunch'')],
                  caption_completion = (\<lambda>i. None), hashtags_completion = (\<lambda>i. None)\<rparr>)
           (str ''Fitness'') 4
           (\<lambda>i. \<lparr>caption_pick = 0, theme_pick = (0, 1), general_pick = (0, 1)\<rparr>))
       = Some 2"
  by (simp add: valid_request_def py_strip_def py_isspace_def str_def
      generate_enhanced_content_plan_def generate_with_llm_def generate_topics_with_llm_def
      Let_def py_slice_to_def)

theorem plan_has_day_count_entries_or_the_accepted_topics_witness:
  "valid_request (str ''Fitness'') 4
   \<and> (\<exists>st. generate_enhanced_content_plan
              (Some \<lparr>use_llm = True,
                     topics_completion =
                       TopicsArray [JString (str ''Stretch at your desk''),
                                    JString (str '' Walk at lunch '')],
                     caption_completion = (\<lambda>i. None), hashtags_completion = (\<lambda>i. None)\<rparr>)
              (str ''Fitness'') 4
              (\<lambda>i. \<lparr>caption_pick = 0, theme_pick = (0, 1), general_pick = (0, 1)\<rparr>) = Some st
         \<and> topics st = [str ''Stretch at your desk'', str ''Walk at lunch'']
         \<and> map Day (content_plan st) = [1, 2])
   \<and> (\<exists>st. generate_enhanced_content_plan
              (Some \<lparr>use_llm = True,
                     topics_completion =
                       TopicsArray [JString (str ''Stretch at your desk''), JOther,
                                    JString (str ''  '')],
                     caption_completion = (\<lambda>i. None), hashtags_completion = (\<lambda>i. None)\<rparr>)
              (str ''Fitness'') 4
              (\<lambda>i. \<lparr>caption_pick = 0, theme_pick = (0, 1), general_pick = (0, 1)\<rparr>) = Some st
         \<and> length (content_plan st) = 4
         \<and> map Day (content_plan st) = [1, 2, 3, 4])"
proof -
  define rnd :: "int \<Rightarrow> draws"
    where "rnd = (\<lambda>i. \<lparr>caption_pick = 0, theme_pick = (0, 1), general_pick = (0, 1)\<rparr>)"
  define two where "two = [JString (str ''Stretch at your desk''), JString (str '' Walk at lunch '')]"
  define one where "one = [JString (str ''Stretch at your desk''), JOther, JString (str ''  '')]"
  define g2 where "g2 = \<lparr>use_llm = True, topics_completion = TopicsArray two,
    caption_completion = (\<lambda>i. None), hashtags_completion = (\<lambda>i. None)\<rparr>"
  define g1 where "g1 = \<lparr>use_llm = True, topics_completion = TopicsArray one,
    caption_completion = (\<lambda>i. None), hashtags_completion = (\<lambda>i. None)\<rparr>"
  have v: "valid_request (str ''Fitness'') 4"
    by (simp add: valid_request_def py_strip_def py_isspace_def str_def)
  have c2: "clean_topics (py_slice_to two 4) = [str ''Stretch at your desk'', str ''Walk at lunch'']"
    by (simp add: two_def py_slice_to_def py_strip_def py_isspace_def str_def)
  have c1: "clean_topics (py_slice_to one 4) = [str ''Stretch at your desk'']"
    by (simp add: one_def py_slice_to_def py_strip_def py_isspace_def str_def)
  have u2: "[1..2::int] = [1, 2]" and u4: "[1..4::int] = [1, 2, 3, 4]"
    by (simp_all add: upto_rec1)
  from plan_has_day_count_entries_or_the_accepted_topics [OF v, of "Some g2" rnd]
  obtain st2 where st2: "generate_enhanced_content_plan (Some g2) (str ''Fitness'') 4 rnd = Some st2"
    "map Day (content_plan st2) = [1..int (length (topics st2))]"
    and acc: "\<forall>g items. Some g2 = Some g \<longrightarrow> use_llm g \<longrightarrow>
           topics_completion g = TopicsArray items \<longrightarrow>
           (int (length (clean_topics (py_slice_to items 4))) < 4 div 2 \<longrightarrow>
              generate_topic_ideas (str ''Fitness'') 4 = Some (topics st2)
              \<and> length (content_plan st2) = nat 4)
           \<and> (4 \<le> 2 * int (length (clean_topics (py_slice_to items 4))) \<longrightarrow>
                topics st2 = clean_topics (py_slice_to items 4))"
    by blast
  from acc [rule_format, of g2 two] c2
  have t2: "topics st2 = [str ''Stretch at your desk'', str ''Walk at lunch'']"
    by (simp add: g2_def)
  with st2(2) u2 have d2: "map Day (content_plan st2) = [1, 2]" by simp
  from plan_has_day_count_entries_or_the_accepted_topics [OF v, of "Some g1" rnd]
  obtain st1 where st1: "generate_enhanced_content_plan (Some g1) (str ''Fitness'') 4 rnd = Some st1"
    "length (content_plan st1) = length (topics st1)"
    "map Day (content_plan st1) = [1..int (length (topics st1))]"
    and rej: "\<forall>g items. Some g1 = Some g \<longrightarrow> use_llm g \<longrightarrow>
           topics_completion g = TopicsArray items \<longrightarrow>
           (int (length (clean_topics (py_slice_to items 4))) < 4 div 2 \<longrightarrow>
              generate_topic_ideas (str ''Fitness'') 4 = Some (topics st1)
              \<and> length (content_plan st1) = nat 4)
           \<and> (4 \<le> 2 * int (length (clean_topics (py_slice_to items 4))) \<longrightarrow>
                topics st1 = clean_topics (py_slice_to items 4))"
    by blast
  from rej [rule_format, of g1 one] c1
  have l1: "length (content_plan st1) = 4" by (simp add: g1_def)
  with st1(2,3) u4 have d1: "map Day (content_plan st1) = [1, 2, 3, 4]" by simp
  have A: "\<exists>st. generate_enhanced_content_plan (Some g2) (str ''Fitness'') 4 rnd = Some st
      \<and> topics st = [str ''Stretch at your desk'', str ''Walk at lunch'']
      \<and> map Day (content_plan st) = [1, 2]"
    by (rule exI [of _ st2]) (simp add: st2(1) t2 d2)
  have B: "\<exists>st. generate_enhanced_content_plan (Some g1) (str ''Fitness'') 4 rnd = Some st
      \<and> length (content_plan st) = 4
      \<and> map Day (content_plan st) = [1, 2, 3, 4]"
    by (rule exI [of _ st1]) (simp add: st1(1) l1 d1)
  show ?thesis
    by (rule conjI [OF v conjI [OF A [unfolded g2_def two_def rnd_def]
          B [unfolded g1_def one_def rnd_def]]])
qed

section \<open>Hashtags\<close>

subsection \<open>Keys in insertion order\<close>

lemma insert_keys_set:
  "set (foldl (\<lambda>keys k. if k \<in> set keys then keys else keys @ [k]) acc xs) = set acc \<union> set xs"
  by (induction xs arbitrary: acc) auto

lemma insert_keys_distinct:
  "distinct acc \<Longrightarrow>
     distinct (foldl (\<lambda>keys k. if k \<in> set keys then keys else keys @ [k]) acc xs)"
  by (induction xs arbitrary: acc) auto

lemma insert_keys_length:
  "length (foldl (\<lambda>keys k. if k \<in> set keys then keys else keys @ [k]) acc xs)
     \<le> length acc + length xs"
proof (induction xs arbitrary: acc)
  case Nil
  then show ?case by simp
next
  case (Cons x xs)
  show ?case using Cons [of "if x \<in> set acc then acc else acc @ [x]"] by (auto split: if_splits)
qed

lemma set_fromkeys: "set (fromkeys xs) = set xs"
  by (simp add: fromkeys_def insert_keys_set)

lemma distinct_fromkeys: "distinct (fromkeys xs)"
  by (simp add: fromkeys_def insert_keys_distinct)

lemma length_fromkeys: "length (fromkeys xs) \<le> length xs"
  using insert_keys_length [of "[]" xs] by (simp add: fromkeys_def)

lemma fromkeys_snoc:
  "fromkeys (xs @ [k]) = (if k \<in> set (fromkeys xs) then fromkeys xs else fromkeys xs @ [k])"
  by (simp add: fromkeys_def)

subsection \<open>Joining with a separator and splitting on it\<close>

lemma split_on_piece: "c \<notin> set x \<Longrightarrow> split_on c w (x @ rest) = split_on c (w @ x) rest"
  by (induction x arbitrary: w) auto

lemma split_on_join:
  assumes "\<forall>x\<in>set xs. c \<notin> set x" and "xs \<noteq> []"
  shows "split_on c w (py_join [c] xs) = (w @ hd xs) # tl xs"
  using assms
proof (induction xs arbitrary: w)
  case Nil
  then show ?case by simp
next
  case (Cons x xs)
  have x: "c \<notin> set x" using Cons.prems by simp
  show ?case
  proof (cases xs)
    case Nil
    have "split_on c w (x @ []) = split_on c (w @ x) []" using x by (rule split_on_piece)
    with Nil show ?thesis by simp
  next
    case (Cons y ys)
    have "split_on c w (py_join [c] (x # y # ys)) = split_on c (w @ x) (c # py_join [c] (y # ys))"
      using split_on_piece [OF x, of w] by simp
    also have "\<dots> = (w @ x) # split_on c [] (py_join [c] (y # ys))" by simp
    also have "split_on c [] (py_join [c] (y # ys)) = ([] @ hd (y # ys)) # tl (y # ys)"
      using Cons.IH [of "[]"] Cons.prems Cons by simp
    finally show ?thesis using Cons by simp
  qed
qed

lemma py_split_on_join:
  assumes "\<forall>x\<in>set xs. c \<notin> set x" and "xs \<noteq> []"
  shows "py_split_on c (py_join [c] xs) = xs"
  using split_on_join [OF assms, of "[]"] assms(2) by (simp add: py_split_on_def)

subsection \<open>No collected hashtag holds a space\<close>

lemma py_lower_char_space: "py_lower_char c = 32 \<longleftrightarrow> c = 32"
  by (auto simp: py_lower_char_def str_def)

lemma py_upper_char_space: "py_upper_char c = 32 \<longleftrightarrow> c = 32"
  by (auto simp: py_upper_char_def str_def)

lemma py_capitalize_space: "32 \<notin> set w \<Longrightarrow> 32 \<notin> set (py_capitalize w)"
proof (cases w)
  case Nil
  then show ?thesis by simp
next
  case (Cons a cs)
  assume w: "32 \<notin> set w"
  have "32 \<notin> set (py_lower cs)"
  proof
    assume "32 \<in> set (py_lower cs)"
    then obtain x where "x \<in> set cs" "py_lower_char x = 32"
      by (auto simp: py_lower_def)
    with w Cons show False by (auto simp: py_lower_char_space)
  qed
  moreover have "py_upper_char a \<noteq> 32" using w Cons by (auto simp: py_upper_char_space)
  ultimately show ?thesis using Cons by auto
qed

lemma topic_clean_no_space: "32 \<notin> set (topic_clean topic)"
proof
  assume "32 \<in> set (topic_clean topic)"
  then obtain w where w: "w \<in> set (py_split (py_replace_char 45 32 topic))"
    and sp: "32 \<in> set (py_capitalize w)"
    by (auto simp: topic_clean_def)
  from w py_split_words have "\<forall>c\<in>set w. \<not> py_isspace c" by blast
  moreover have "py_isspace 32" by (simp add: py_isspace_def)
  ultimately have "32 \<notin> set w" by blast
  with sp py_capitalize_space show False by blast
qed

lemma theme_specific_tags_cases:
  "theme_specific_tags table t s = []
   \<or> (\<exists>key tags. (key, tags) \<in> set table \<and> theme_specific_tags table t s = random_sample2 tags s)"
  by (induction table t s rule: theme_specific_tags.induct) auto

lemma theme_hashtags_pools:
  assumes "(key, tags) \<in> set theme_hashtags"
  shows "length tags = 6 \<and> (\<forall>tag\<in>set tags. 32 \<notin> set tag)"
  using assms by (auto simp: theme_hashtags_def str_def)

lemma theme_specific_tags_no_space:
  assumes "valid_sample 6 s"
  shows "length (theme_specific_tags theme_hashtags t s) \<le> 2
     \<and> (\<forall>tag\<in>set (theme_specific_tags theme_hashtags t s). 32 \<notin> set tag)"
proof -
  from theme_specific_tags_cases [of theme_hashtags t s]
  consider "theme_specific_tags theme_hashtags t s = []"
    | key tags where "(key, tags) \<in> set theme_hashtags"
      "theme_specific_tags theme_hashtags t s = random_sample2 tags s"
    by blast
  then show ?thesis
  proof cases
    case 1
    then show ?thesis by simp
  next
    case 2
    from theme_hashtags_pools [OF 2(1)] have len: "length tags = 6"
      and ns: "\<forall>tag\<in>set tags. 32 \<notin> set tag" by simp_all
    from assms len have "tags ! fst s \<in> set tags" "tags ! snd s \<in> set tags"
      by (simp_all add: valid_sample_def)
    with ns 2(2) show ?thesis by (simp add: random_sample2_def)
  qed
qed

lemma general_sample:
  assumes "valid_sample 8 s"
  shows "general_hashtags ! fst s \<noteq> general_hashtags ! snd s
     \<and> (\<forall>tag\<in>set (random_sample2 general_hashtags s).
           tag \<in> set general_hashtags \<and> 32 \<notin> set tag \<and> tag \<noteq> [] \<and> 2 < length tag)"
proof -
  have d: "distinct general_hashtags" by (simp add: general_hashtags_def str_def)
  have len: "length general_hashtags = 8" by (simp add: general_hashtags_def str_def)
  have all: "\<forall>tag\<in>set general_hashtags. 32 \<notin> set tag \<and> tag \<noteq> [] \<and> 2 < length tag"
    by (simp add: general_hashtags_def str_def)
  from assms len have i: "fst s < length general_hashtags" "snd s < length general_hashtags"
    "fst s \<noteq> snd s" by (simp_all add: valid_sample_def)
  with d have "general_hashtags ! fst s \<noteq> general_hashtags ! snd s"
    by (simp add: nth_eq_iff_index_eq)
  moreover from i have "general_hashtags ! fst s \<in> set general_hashtags"
    "general_hashtags ! snd s \<in> set general_hashtags" by simp_all
  ultimately show ?thesis using all by (simp add: random_sample2_def)
qed

subsection \<open>The tokens of the output\<close>

lemma unique_hashtags_shape:
  assumes "valid_draws d"
  shows "\<exists>hp. unique_hashtags topic theme d
           = fromkeys (hp @ [35 # general_hashtags ! fst (general_pick d),
                             35 # general_hashtags ! snd (general_pick d)])
     \<and> length hp \<le> 4
     \<and> general_hashtags ! fst (general_pick d) \<noteq> general_hashtags ! snd (general_pick d)
     \<and> (\<forall>t\<in>set (unique_hashtags topic theme d).
           \<exists>body. t = 35 # body \<and> 2 < length body \<and> 32 \<notin> set body)"
proof -
  from assms have vt: "valid_sample 6 (theme_pick d)" and vg: "valid_sample 8 (general_pick d)"
    by (simp_all add: valid_draws_def)
  define g1 where "g1 = general_hashtags ! fst (general_pick d)"
  define g2 where "g2 = general_hashtags ! snd (general_pick d)"
  define specific where "specific = theme_specific_tags theme_hashtags (py_lower theme) (theme_pick d)"
  define pre where "pre = [py_remove 32 theme]
     @ (if length (topic_clean topic) \<le> 20 then [topic_clean topic] else []) @ specific"
  define ok where "ok = (\<lambda>tag :: pystr. tag \<noteq> [] \<and> 2 < length tag)"
  define hp where "hp = map (\<lambda>tag. 35 # tag) (filter ok pre)"
  from theme_specific_tags_no_space [OF vt, of "py_lower theme"]
  have sp_len: "length specific \<le> 2" and sp_ns: "\<forall>tag\<in>set specific. 32 \<notin> set tag"
    by (simp_all add: specific_def)
  from general_sample [OF vg]
  have ne: "g1 \<noteq> g2" and g1: "32 \<notin> set g1" "ok g1" and g2: "32 \<notin> set g2" "ok g2"
    by (simp_all add: g1_def g2_def random_sample2_def ok_def)
  have collect: "collect_hashtags topic theme d = pre @ [g1, g2]"
    by (simp add: collect_hashtags_def pre_def specific_def random_sample2_def g1_def g2_def)
  have pre_len: "length pre \<le> 4" using sp_len by (simp add: pre_def)
  have pre_ns: "\<forall>tag\<in>set pre. 32 \<notin> set tag"
    using sp_ns topic_clean_no_space [of topic] by (auto simp: pre_def py_remove_def)
  have uniq: "unique_hashtags topic theme d = fromkeys (hp @ [35 # g1, 35 # g2])"
    using g1(2) g2(2) by (simp add: unique_hashtags_def collect hp_def ok_def)
  have hp_len: "length hp \<le> 4"
    using le_trans [OF length_filter_le pre_len] by (simp add: hp_def)
  have "\<exists>body. t = 35 # body \<and> 2 < length body \<and> 32 \<notin> set body"
    if "t \<in> set (unique_hashtags topic theme d)" for t
  proof -
    from that have "t \<in> set hp \<or> t = 35 # g1 \<or> t = 35 # g2"
      by (auto simp: uniq set_fromkeys)
    then show ?thesis
    proof (elim disjE)
      assume "t \<in> set hp"
      then obtain tag where "tag \<in> set pre" "ok tag" "t = 35 # tag"
        by (auto simp: hp_def)
      with pre_ns show ?thesis by (auto simp: ok_def)
    next
      assume "t = 35 # g1"
      with g1 show ?thesis by (simp add: ok_def)
    next
      assume "t = 35 # g2"
      with g2 show ?thesis by (simp add: ok_def)
    qed
  qed
  with uniq hp_len ne show ?thesis unfolding g1_def g2_def by blast
qed

lemma unique_hashtags_two:
  assumes "valid_draws d"
  shows "2 \<le> length (unique_hashtags topic theme d)"
proof -
  from unique_hashtags_shape [OF assms, of topic theme] obtain hp where
    uniq: "unique_hashtags topic theme d
           = fromkeys (hp @ [35 # general_hashtags ! fst (general_pick d),
                             35 # general_hashtags ! snd (general_pick d)])"
    and ne: "general_hashtags ! fst (general_pick d) \<noteq> general_hashtags ! snd (general_pick d)"
    by blast
  define a where "a = 35 # general_hashtags ! fst (general_pick d)"
  define b where "b = 35 # general_hashtags ! snd (general_pick d)"
  have ab: "a \<noteq> b" using ne by (simp add: a_def b_def)
  have "{a, b} \<subseteq> set (unique_hashtags topic theme d)"
    by (simp add: uniq set_fromkeys a_def b_def)
  then have "card {a, b} \<le> card (set (unique_hashtags topic theme d))"
    by (intro card_mono) simp_all
  also have "\<dots> \<le> length (unique_hashtags topic theme d)" by (rule card_length)
  finally show ?thesis using ab by simp
qed

lemma hashtag_tokens_eq:
  assumes "valid_draws d"
  shows "hashtag_tokens topic theme d = take 5 (unique_hashtags topic theme d)"
proof -
  from unique_hashtags_shape [OF assms, of topic theme]
  have body: "\<forall>t\<in>set (unique_hashtags topic theme d).
      \<exists>body. t = 35 # body \<and> 2 < length body \<and> 32 \<notin> set body" by blast
  have "\<forall>t\<in>set (take 5 (unique_hashtags topic theme d)). 32 \<notin> set t"
  proof
    fix t assume "t \<in> set (take 5 (unique_hashtags topic theme d))"
    then have "t \<in> set (unique_hashtags topic theme d)" by (rule in_set_takeD)
    with body obtain b where "t = 35 # b" "32 \<notin> set b" by blast
    then show "32 \<notin> set t" by simp
  qed
  moreover have "take 5 (unique_hashtags topic theme d) \<noteq> []"
    using unique_hashtags_two [OF assms, of topic theme] by auto
  ultimately have "py_split_on 32 (py_join [32] (take 5 (unique_hashtags topic theme d)))
      = take 5 (unique_hashtags topic theme d)"
    by (rule py_split_on_join)
  then show ?thesis by (simp add: hashtag_tokens_def generate_hashtags_def str_space)
qed

text \<open>
  Claim C6. For every topic and theme, and every draw of the random source, the output
  of the hashtag synthesizer split on spaces has between 1 and 5 tokens, every token
  starts with \<open>#\<close>, what follows the \<open>#\<close> is longer than 2 characters, and no token
  occurs twice.
\<close>

theorem hashtags_are_one_to_five_distinct_tags:
  assumes "valid_draws d"
  shows "1 \<le> length (hashtag_tokens topic theme d)
     \<and> length (hashtag_tokens topic theme d) \<le> 5
     \<and> (\<forall>t\<in>set (hashtag_tokens topic theme d). py_startswith t (str ''#'') \<and> 2 < length (tl t))
     \<and> distinct (hashtag_tokens topic theme d)"
proof -
  have eq: "hashtag_tokens topic theme d = take 5 (unique_hashtags topic theme d)"
    using assms by (rule hashtag_tokens_eq)
  have "2 \<le> length (unique_hashtags topic theme d)" using assms by (rule unique_hashtags_two)
  then have len: "1 \<le> length (hashtag_tokens topic theme d)" by (simp add: eq)
  have "py_startswith t (str ''#'') \<and> 2 < length (tl t)" if "t \<in> set (hashtag_tokens topic theme d)" for t
  proof -
    from that have "t \<in> set (unique_hashtags topic theme d)"
      unfolding eq by (rule in_set_takeD)
    with unique_hashtags_shape [OF assms, of topic theme]
    obtain b where "t = 35 # b" "2 < length b" by blast
    then show ?thesis by (simp add: py_startswith_def str_hash)
  qed
  moreover have "distinct (hashtag_tokens topic theme d)"
    by (simp add: eq unique_hashtags_def distinct_fromkeys)
  ultimately show ?thesis using len by (simp add: eq)
qed

text \<open>
  Claim C10, as amended. For every topic and theme, and every draw of the random
  source, the output of the hashtag synthesizer has at least 2 tokens: they are the
  first five of the distinct hashtags collected, of which there are at most six and
  among which are the two sampled from the general pool. The first of these two is
  always in the output, as at most four hashtags are collected before it. The second is
  in the output if and only if no more than five distinct hashtags were collected;
  when there are six, the cut to five removes it.
\<close>

theorem at_least_two_hashtags_first_generic_kept:
  assumes "valid_draws d"
  shows "hashtag_tokens topic theme d = take 5 (unique_hashtags topic theme d)
     \<and> length (unique_hashtags topic theme d) \<le> 6
     \<and> 2 \<le> length (hashtag_tokens topic theme d)
     \<and> 35 # general_hashtags ! fst (general_pick d) \<in> set (hashtag_tokens topic theme d)
     \<and> (35 # general_hashtags ! snd (general_pick d) \<in> set (hashtag_tokens topic theme d)
          \<longleftrightarrow> length (unique_hashtags topic theme d) \<le> 5)"
proof -
  have eq: "hashtag_tokens topic theme d = take 5 (unique_hashtags topic theme d)"
    using assms by (rule hashtag_tokens_eq)
  from unique_hashtags_shape [OF assms, of topic theme] obtain hp where
    uniq: "unique_hashtags topic theme d
           = fromkeys (hp @ [35 # general_hashtags ! fst (general_pick d),
                             35 # general_hashtags ! snd (general_pick d)])"
    and hp: "length hp \<le> 4" by blast
  define a where "a = 35 # general_hashtags ! fst (general_pick d)"
  define b where "b = 35 # general_hashtags ! snd (general_pick d)"
  define upto_a where "upto_a = fromkeys (hp @ [a])"
  have "length upto_a \<le> length (hp @ [a])" unfolding upto_a_def by (rule length_fromkeys)
  with hp have la: "length upto_a \<le> 5" by simp
  have a_in: "a \<in> set upto_a" by (simp add: upto_a_def set_fromkeys)
  have "unique_hashtags topic theme d = fromkeys ((hp @ [a]) @ [b])"
    by (simp add: uniq a_def b_def)
  also have "\<dots> = (if b \<in> set upto_a then upto_a else upto_a @ [b])"
    unfolding upto_a_def by (rule fromkeys_snoc)
  finally have shape: "unique_hashtags topic theme d
      = (if b \<in> set upto_a then upto_a else upto_a @ [b])" .
  have six: "length (unique_hashtags topic theme d) \<le> 6"
    using la by (simp add: shape)
  have first: "a \<in> set (hashtag_tokens topic theme d)"
    using a_in la by (auto simp: eq shape)
  have two: "2 \<le> length (hashtag_tokens topic theme d)"
    using unique_hashtags_two [OF assms, of topic theme] by (simp add: eq)
  have kept: "b \<in> set (hashtag_tokens topic theme d)"
    if "length (unique_hashtags topic theme d) \<le> 5"
    using that by (simp add: eq) (simp add: uniq set_fromkeys b_def)
  have cut: "b \<notin> set (hashtag_tokens topic theme d)"
    if "\<not> length (unique_hashtags topic theme d) \<le> 5"
  proof -
    from that la have new: "b \<notin> set upto_a" and full: "length upto_a = 5"
      by (auto simp: shape split: if_splits)
    then have "take 5 (unique_hashtags topic theme d) = upto_a" by (simp add: shape)
    with new show ?thesis by (simp add: eq)
  qed
  from kept cut have "b \<in> set (hashtag_tokens topic theme d)
      \<longleftrightarrow> length (unique_hashtags topic theme d) \<le> 5" by blast
  with eq six two first show ?thesis unfolding a_def b_def by blast
qed

subsection \<open>Concrete outputs\<close>

lemmas hashtag_eval =
  generate_hashtags_def unique_hashtags_def collect_hashtags_def topic_clean_def
  py_remove_def py_replace_char_def py_split_def py_isspace_def py_lower_def
  py_lower_char_def py_upper_char_def str_def theme_hashtags_def general_hashtags_def
  random_sample2_def fromkeys_def py_startswith_def

theorem hashtags_are_one_to_five_distinct_tags_witness:
  "valid_draws \<lparr>caption_pick = 0, theme_pick = (0, 1), general_pick = (3, 1)\<rparr>
   \<and> hashtag_tokens (str ''Self-Care Sunday Ideas'') (str ''Mental Health for Gen Z'')
        \<lparr>caption_pick = 0, theme_pick = (0, 1), general_pick = (3, 1)\<rparr>
       = [str ''#MentalHealthforGenZ'', str ''#SelfCareSundayIdeas'', str ''#MentalHealthMatters'',
          str ''#SelfCare'', str ''#Success'']
   \<and> 1 \<le> length (hashtag_tokens (str ''Self-Care Sunday Ideas'') (str ''Mental Health for Gen Z'')
        \<lparr>caption_pick = 0, theme_pick = (0, 1), general_pick = (3, 1)\<rparr>)
   \<and> length (hashtag_tokens (str ''Self-Care Sunday Ideas'') (str ''Mental Health for Gen Z'')
        \<lparr>caption_pick = 0, theme_pick = (0, 1), general_pick = (3, 1)\<rparr>) \<le> 5
   \<and> distinct (hashtag_tokens (str ''Self-Care Sunday Ideas'') (str ''Mental Health for Gen Z'')
        \<lparr>caption_pick = 0, theme_pick = (0, 1), general_pick = (3, 1)\<rparr>)"
proof -
  define d where "d = \<lparr>caption_pick = 0, theme_pick = (0, 1), general_pick = (3, 1)\<rparr>"
  have v: "valid_draws d"
    by (simp add: d_def valid_draws_def valid_sample_def)
  have e: "hashtag_tokens (str ''Self-Care Sunday Ideas'') (str ''Mental Health for Gen Z'') d
       = [str ''#MentalHealthforGenZ'', str ''#SelfCareSundayIdeas'', str ''#MentalHealthMatters'',
          str ''#SelfCare'', str ''#Success'']"
    by (simp add: d_def hashtag_tokens_def py_split_on_def hashtag_eval)
  note t = hashtags_are_one_to_five_distinct_tags [OF v,
      of "str ''Self-Care Sunday Ideas''" "str ''Mental Health for Gen Z''"]
  show ?thesis
    using v e t unfolding d_def by (intro conjI) simp_all
qed

theorem at_least_two_hashtags_first_generic_kept_witness:
  "valid_draws \<lparr>caption_pick = 0, theme_pick = (5, 0), general_pick = (3, 1)\<rparr>
   \<and> length (unique_hashtags (str ''Email Etiquette'') (str ''Business Success'')
        \<lparr>caption_pick = 0, theme_pick = (5, 0), general_pick = (3, 1)\<rparr>) = 5
   \<and> 35 # general_hashtags ! 3 = str ''#Success''
   \<and> 35 # general_hashtags ! 1 = str ''#Tips''
   \<and> str ''#Success'' \<in> set (hashtag_tokens (str ''Email Etiquette'') (str ''Business Success'')
        \<lparr>caption_pick = 0, theme_pick = (5, 0), general_pick = (3, 1)\<rparr>)
   \<and> str ''#Tips'' \<in> set (hashtag_tokens (str ''Email Etiquette'') (str ''Business Success'')
        \<lparr>caption_pick = 0, theme_pick = (5, 0), general_pick = (3, 1)\<rparr>)
   \<and> valid_draws \<lparr>caption_pick = 0, theme_pick = (0, 1), general_pick = (0, 1)\<rparr>
   \<and> length (unique_hashtags (str ''Office Stretches'') (str ''Fitness'')
        \<lparr>caption_pick = 0, theme_pick = (0, 1), general_pick = (0, 1)\<rparr>) = 6
   \<and> str ''#Tips'' \<notin> set (hashtag_tokens (str ''Office Stretches'') (str ''Fitness'')
        \<lparr>caption_pick = 0, theme_pick = (0, 1), general_pick = (0, 1)\<rparr>)"
proof -
  define d where "d = \<lparr>caption_pick = 0, theme_pick = (5, 0), general_pick = (3, 1)\<rparr>"
  define d' where "d' = \<lparr>caption_pick = 0, theme_pick = (0, 1), general_pick = (0, 1)\<rparr>"
  have v: "valid_draws d" and v': "valid_draws d'"
    by (simp_all add: d_def d'_def valid_draws_def valid_sample_def)
  have g3: "35 # general_hashtags ! 3 = str ''#Success''"
    and g1: "35 # general_hashtags ! 1 = str ''#Tips''"
    by (simp_all add: general_hashtags_def str_def)
  have u: "length (unique_hashtags (str ''Email Etiquette'') (str ''Business Success'') d) = 5"
    by (simp add: d_def hashtag_eval)
  have u': "length (unique_hashtags (str ''Office Stretches'') (str ''Fitness'') d') = 6"
    by (simp add: d'_def hashtag_eval)
  note t = at_least_two_hashtags_first_generic_kept [OF v,
      of "str ''Email Etiquette''" "str ''Business Success''"]
  note t' = at_least_two_hashtags_first_generic_kept [OF v',
      of "str ''Office Stretches''" "str ''Fitness''"]
  have gp: "fst (general_pick d) = 3" "snd (general_pick d) = 1"
    "snd (general_pick d') = 1"
    by (simp_all add: d_def d'_def)
  note in_first = t [THEN conjunct2, THEN conjunct2, THEN conjunct2, THEN conjunct1]
  note iff = t [THEN conjunct2, THEN conjunct2, THEN conjunct2, THEN conjunct2]
  note iff' = t' [THEN conjunct2, THEN conjunct2, THEN conjunct2, THEN conjunct2]
  have first: "str ''#Success''
      \<in> set (hashtag_tokens (str ''Email Etiquette'') (str ''Business Success'') d)"
    using in_first gp g3 by simp
  have "35 # general_hashtags ! snd (general_pick d)
      \<in> set (hashtag_tokens (str ''Email Etiquette'') (str ''Business Success'') d)"
    unfolding iff using u by simp
  then have second: "str ''#Tips''
      \<in> set (hashtag_tokens (str ''Email Etiquette'') (str ''Business Success'') d)"
    using gp g1 by simp
  have "35 # general_hashtags ! snd (general_pick d')
      \<notin> set (hashtag_tokens (str ''Office Stretches'') (str ''Fitness'') d')"
    unfolding iff' using u' by simp
  then have cut: "str ''#Tips''
      \<notin> set (hashtag_tokens (str ''Office Stretches'') (str ''Fitness'') d')"
    using gp g1 by simp
  show ?thesis
    using v u g3 g1 first second v' u' cut unfolding d_def d'_def by (intro conjI)
qed

text \<open>
  Claim C10 as stated fails where the theme hashtag, the topic hashtag and two theme
  specific hashtags come before the two general ones: six distinct hashtags are
  collected, and the second general hashtag, \<open>#Tips\<close>, does not survive the cut to five.
\<close>

theorem second_generic_hashtag_is_cut_off:
  "valid_draws \<lparr>caption_pick = 0, theme_pick = (0, 1), general_pick = (0, 1)\<rparr>
   \<and> random_sample2 general_hashtags (0, 1) = [str ''Motivation'', str ''Tips'']
   \<and> hashtag_tokens (str ''Office Stretches'') (str ''Fitness'')
        \<lparr>caption_pick = 0, theme_pick = (0, 1), general_pick = (0, 1)\<rparr>
       = [str ''#Fitness'', str ''#OfficeStretches'', str ''#FitnessMotivation'',
          str ''#HealthyLifestyle'', str ''#Motivation'']
   \<and> str ''#Tips'' \<notin> set (hashtag_tokens (str ''Office Stretches'') (str ''Fitness'')
        \<lparr>caption_pick = 0, theme_pick = (0, 1), general_pick = (0, 1)\<rparr>)"
  by (simp add: valid_draws_def valid_sample_def hashtag_tokens_def py_split_on_def hashtag_eval)

end
